theory Spec2Isabelle
  imports Complex_Main "HOL-Library.Multiset" 
begin


section \<open>Strings as Python uses them\<close>

text \<open>
  A Python \<open>str\<close> is modelled as a \<open>string\<close>. Only ASCII letters are touched by
  \<open>lower\<close>; every character that is not an ASCII upper-case letter is kept. (Python also
  lower-cases letters outside ASCII, but no such letter is mapped to a hexadecimal digit,
  so address validity is not affected.)
\<close>

definition startswith :: "string \<Rightarrow> string \<Rightarrow> bool" where
  "startswith s p = (take (length p) s = p)"

definition endswith :: "string \<Rightarrow> string \<Rightarrow> bool" where
  "endswith s p = (length p \<le> length s \<and> drop (length s - length p) s = p)"

definition lower_char :: "char \<Rightarrow> char" where
  "lower_char c =
     (case map_of (zip ''ABCDEFGHIJKLMNOPQRSTUVWXYZ'' ''abcdefghijklmnopqrstuvwxyz'') c of
        Some d \<Rightarrow> d
      | None \<Rightarrow> c)"

definition lower :: "string \<Rightarrow> string" where
  "lower s = map lower_char s"

section \<open>Address utilities (utils.py)\<close>

definition is_hex_char :: "char \<Rightarrow> bool" where
  "is_hex_char c = (c \<in> set ''0123456789abcdefABCDEF'')"

text \<open>
  \<open>re.match(r'^[0-9a-fA-F]{40}$', s)\<close>: forty hexadecimal characters, then the end of
  the string; in Python \<open>$\<close> also matches just before one final newline.
\<close>

definition re_match_hex40 :: "string \<Rightarrow> bool" where
  "re_match_hex40 s =
     (list_all is_hex_char (take 40 s) \<and>
      (length s = 40 \<or> (length s = 41 \<and> drop 40 s = [CHR 0x0A])))"

definition is_valid_ethereum_address :: "string \<Rightarrow> bool" where
  "is_valid_ethereum_address address =
     (if address = [] then False
      else let address = (if startswith address ''0x'' then drop 2 address else address)
           in re_match_hex40 address)"

definition normalize_address :: "string \<Rightarrow> string" where
  "normalize_address address =
     (if address = [] then []
      else let address = lower address
           in if \<not> startswith address ''0x'' then ''0x'' @ address else address)"

definition special_addresses :: "string list" where
  "special_addresses =
     [''0x0000000000000000000000000000000000000000'',
      ''0x000000000000000000000000000000000000dead'',
      ''0x0000000000000000000000000000000000000001'',
      ''0x0000000000000000000000000000000000000002'',
      ''0x0000000000000000000000000000000000000003'',
      ''0x0000000000000000000000000000000000000004'',
      ''0x0000000000000000000000000000000000000005'',
      ''0x0000000000000000000000000000000000000006'',
      ''0x0000000000000000000000000000000000000007'',
      ''0x0000000000000000000000000000000000000008'',
      ''0x0000000000000000000000000000000000000009'']"

definition known_contracts :: "string list" where
  "known_contracts =
     [''0x7a250d5630b4cf539739df2c5dacb4c659f2488d'',
      ''0x68b3465833fb72a70ecdf485e0e4c7bd8665fc45'',
      ''0xe592427a0aece92de3edee1f18e0157c05861564'',
      ''0x3fc91a3afd70395cd496c647d5a6cc9d4b2b7fad'',
      ''0x1111111254eeb25477b68fb85ed929f73a960582'',
      ''0x11111254369792b2ca5d084ab5eea397ca8fa48b'',
      ''0xdef1c0ded9bec7f1a1670819833240f027b25eff'',
      ''0x881d40237659c251811cec9c364ef91dc08d300c'',
      ''0x6b175474e89094c44da98b954eedeac495271d0f'',
      ''0xa0b86a33e6441e3c6cdeaf9bf464c44c78a1f0e9'',
      ''0x3f5ce5fbfe3e9af3971dd833d26ba9b5c936f0be'',
      ''0xd551234ae421e3bcba99a0da6d736074f22192ff'',
      ''0x564286362092d8e7936f0549571a803b203aaced'',
      ''0xc02aaa39b223fe8d0a0e5c4f27ead9083c756cc2'',
      ''0x1e0049783f008a0085193e00003d00cd54003c71'',
      ''0x00000000006c3852cbef3e08e8df289169ede581'']"

text \<open>
  \<open>is_likely_contract\<close>: the body of the \<open>try\<close> uses string operations only, none of
  which raises on a \<open>str\<close>, so the \<open>except\<close> branch is never taken and the model is a
  total function.
\<close>

definition is_likely_contract :: "string \<Rightarrow> bool" where
  "is_likely_contract address0 =
     (let address = normalize_address address0 in
      if address = [] \<or> \<not> is_valid_ethereum_address address then False
      else if address \<in> set special_addresses then True
      else if address \<in> set known_contracts then True
      else let address_no_prefix =
                 (if startswith address ''0x'' then drop 2 address else address)
           in if length (remdups address_no_prefix) \<le> 4 then True
              else if endswith address_no_prefix ''00000'' then True
              else if startswith address_no_prefix ''00000'' then True
              else False)"

section \<open>Python's \<open>decimal\<close> arithmetic\<close>

text \<open>
  The exceptions of the \<open>decimal\<close> module that the code can meet. None of
  \<open>InvalidOperation\<close> and \<open>Overflow\<close> is a \<open>ValueError\<close>, \<open>TypeError\<close>,
  \<open>OverflowError\<close> or \<open>ZeroDivisionError\<close>; \<open>DivisionByZero\<close> and
  \<open>DivisionUndefined\<close> are \<open>ZeroDivisionError\<close>s. \<open>ValueError\<close> is what \<open>int()\<close>
  raises on a malformed numeral, \<open>OverflowError\<close> what \<open>round\<close> raises on an infinite
  float.
\<close>

datatype error =
  InvalidOperation | Overflow | DivisionByZero | DivisionUndefined | ValueError | OverflowError

definition is_ZeroDivisionError :: "error \<Rightarrow> bool" where
  "is_ZeroDivisionError e = (e = DivisionByZero \<or> e = DivisionUndefined)"

text \<open>
  \<open>try_except caught dflt r\<close> is \<open>try: return r  except caught: return dflt\<close>;
  an exception that the handler does not name goes on to the caller. \<open>bind\<close> runs the
  next statement when the previous one has not raised.
\<close>

definition try_except :: "(error \<Rightarrow> bool) \<Rightarrow> 'a \<Rightarrow> error + 'a \<Rightarrow> error + 'a" where
  "try_except caught dflt r =
     (case r of Inl e \<Rightarrow> if caught e then Inr dflt else Inl e | Inr v \<Rightarrow> Inr v)"

definition bind :: "error + 'a \<Rightarrow> ('a \<Rightarrow> error + 'b) \<Rightarrow> error + 'b" where
  "bind r f = (case r of Inl e \<Rightarrow> Inl e | Inr v \<Rightarrow> f v)"

text \<open>
  A finite \<open>Decimal\<close> is a sign (\<open>True\<close> for negative), a coefficient and an exponent,
  and stands for \<open>\<plusminus> coefficient * 10 ^ exponent\<close>. The representation matters: \<open>str\<close>
  prints the digits of the coefficient, trailing zeros included. NaN and the infinities are
  not modelled; they arise only from the strings that spell them and from floats that are
  not finite.
\<close>

datatype decimal = Decimal (dsign: bool) (dint: nat) (dexp: int)

text \<open>The default context: 28 digits, \<open>ROUND_HALF_EVEN\<close>, exponents up to 999999.\<close>

definition prec :: nat where "prec = 28"
definition Emax :: int where "Emax = 999999"
definition Emin :: int where "Emin = - 999999"
definition Etiny :: int where "Etiny = Emin - int prec + 1"
definition Etop :: int where "Etop = Emax - int prec + 1"

fun ndigits :: "nat \<Rightarrow> nat" where
  "ndigits n = (if n < 10 then 1 else Suc (ndigits (n div 10)))"

declare ndigits.simps [simp del]

definition adjusted :: "decimal \<Rightarrow> int" where
  "adjusted d = dexp d + int (ndigits (dint d)) - 1"

definition pow10 :: "int \<Rightarrow> rat" where
  "pow10 e = (if 0 \<le> e then 10 ^ nat e else 1 / 10 ^ nat (- e))"

definition dec_val :: "decimal \<Rightarrow> rat" where
  "dec_val d = (if dsign d then - 1 else 1) * of_nat (dint d) * pow10 (dexp d)"

definition Decimal_of_int :: "int \<Rightarrow> decimal" where
  "Decimal_of_int n = Decimal (n < 0) (nat \<bar>n\<bar>) 0"

text \<open>Dropping the last \<open>k\<close> digits of a coefficient, by the two rounding modes used.\<close>

datatype rounding = ROUND_DOWN | ROUND_HALF_EVEN

definition round_digits :: "rounding \<Rightarrow> nat \<Rightarrow> nat \<Rightarrow> nat" where
  "round_digits mode c k =
     (let q = c div 10 ^ k; r = c mod 10 ^ k
      in case mode of
           ROUND_DOWN \<Rightarrow> q
         | ROUND_HALF_EVEN \<Rightarrow>
             if 10 ^ k < 2 * r \<or> (2 * r = 10 ^ k \<and> odd q) then q + 1 else q)"

text \<open>
  \<open>Decimal._fix\<close>: round to the context. A zero keeps its sign and gets its exponent
  clamped; a coefficient of more than \<open>prec\<close> digits is rounded to \<open>prec\<close> digits (to fewer
  below \<open>Etiny\<close>); an adjusted exponent above \<open>Emax\<close> raises \<open>Overflow\<close>, which the
  default context traps.
\<close>

definition dec_fix :: "decimal \<Rightarrow> error + decimal" where
  "dec_fix d =
     (if dint d = 0 then Inr (Decimal (dsign d) 0 (min (max (dexp d) Etiny) Emax))
      else let exp_min0 = int (ndigits (dint d)) + dexp d - int prec in
        if Etop < exp_min0 then Inl Overflow
        else let exp_min = max exp_min0 Etiny in
          if dexp d < exp_min then
            (let c = round_digits ROUND_HALF_EVEN (dint d) (nat (exp_min - dexp d));
                 carry = (prec < ndigits c);
                 coeff = (if carry then c div 10 else c);
                 exp_min = (if carry then exp_min + 1 else exp_min)
             in if Etop < exp_min then Inl Overflow
                else Inr (Decimal (dsign d) coeff exp_min))
          else Inr d)"

text \<open>\<open>Decimal._rescale\<close>: the same value at another exponent, padded or rounded.\<close>

definition dec_rescale :: "rounding \<Rightarrow> decimal \<Rightarrow> int \<Rightarrow> decimal" where
  "dec_rescale mode d ex =
     (if dint d = 0 then Decimal (dsign d) 0 ex
      else if ex \<le> dexp d then Decimal (dsign d) (dint d * 10 ^ nat (dexp d - ex)) ex
      else Decimal (dsign d) (round_digits mode (dint d) (nat (ex - dexp d))) ex)"

text \<open>
  Addition. Python aligns the operands, adds the coefficients and rounds once with
  \<open>_fix\<close>; when the exponents are far apart it replaces the small operand by a stand-in
  that rounds the same way, only to keep the intermediate numbers short. The model adds
  exactly and rounds once.
\<close>

definition signed_coeff :: "decimal \<Rightarrow> int \<Rightarrow> int" where
  "signed_coeff d ex =
     (if dsign d then - 1 else 1) * int (dint d) * 10 ^ nat (dexp d - ex)"

definition dec_add :: "decimal \<Rightarrow> decimal \<Rightarrow> error + decimal" where
  "dec_add a b =
     (let ex = min (dexp a) (dexp b) in
      if dint a = 0 \<and> dint b = 0 then dec_fix (Decimal (dsign a \<and> dsign b) 0 ex)
      else if dint a = 0
        then dec_fix (dec_rescale ROUND_HALF_EVEN b (max ex (dexp b - int prec - 1)))
      else if dint b = 0
        then dec_fix (dec_rescale ROUND_HALF_EVEN a (max ex (dexp a - int prec - 1)))
      else let r = signed_coeff a ex + signed_coeff b ex
           in dec_fix (Decimal (r < 0) (nat \<bar>r\<bar>) ex))"

definition dec_neg :: "decimal \<Rightarrow> decimal" where
  "dec_neg d = Decimal (\<not> dsign d) (dint d) (dexp d)"

definition dec_sub :: "decimal \<Rightarrow> decimal \<Rightarrow> error + decimal" where
  "dec_sub a b = dec_add a (dec_neg b)"

definition dec_mul :: "decimal \<Rightarrow> decimal \<Rightarrow> error + decimal" where
  "dec_mul a b = dec_fix (Decimal (dsign a \<noteq> dsign b) (dint a * dint b) (dexp a + dexp b))"

text \<open>
  Division (\<open>Decimal.__truediv__\<close>): a quotient of \<open>prec + 1\<close> digits whose last digit
  is made unequal to 0 and 5 when the division is inexact (so that \<open>_fix\<close> rounds
  correctly), or else the exact quotient with its trailing zeros stripped down to the ideal
  exponent.
\<close>

function strip_zeros :: "nat \<Rightarrow> int \<Rightarrow> int \<Rightarrow> nat \<times> int" where
  "strip_zeros coeff ex ideal_exp =
     (if ex < ideal_exp \<and> coeff mod 10 = 0
      then strip_zeros (coeff div 10) (ex + 1) ideal_exp
      else (coeff, ex))"
  by pat_completeness auto
termination
  by (relation "measure (\<lambda>(coeff, ex, ideal_exp). nat (ideal_exp - ex))") auto

declare strip_zeros.simps [simp del]

definition dec_div :: "decimal \<Rightarrow> decimal \<Rightarrow> error + decimal" where
  "dec_div a b =
     (let sign = (dsign a \<noteq> dsign b) in
      if dint b = 0 then (if dint a = 0 then Inl DivisionUndefined else Inl DivisionByZero)
      else if dint a = 0 then dec_fix (Decimal sign 0 (dexp a - dexp b))
      else let shift = int (ndigits (dint b)) - int (ndigits (dint a)) + int prec + 1;
               ex = dexp a - dexp b - shift;
               num = (if 0 \<le> shift then dint a * 10 ^ nat shift else dint a);
               den = (if 0 \<le> shift then dint b else dint b * 10 ^ nat (- shift));
               coeff = num div den;
               remainder = num mod den
           in if remainder \<noteq> 0
              then dec_fix (Decimal sign (if coeff mod 5 = 0 then coeff + 1 else coeff) ex)
              else (case strip_zeros coeff ex (dexp a - dexp b) of
                      (coeff, ex) \<Rightarrow> dec_fix (Decimal sign coeff ex)))"

text \<open>
  \<open>Decimal(10) ** n\<close> for an \<open>int\<close> \<open>n\<close>: the exact power, written with up to 28
  trailing zeros when \<open>n\<close> is not negative, and rounded to the context.
\<close>

definition dec_pow10 :: "int \<Rightarrow> error + decimal" where
  "dec_pow10 n =
     (if 0 \<le> n then (let zeros = min n 28 in dec_fix (Decimal False (10 ^ nat zeros) (n - zeros)))
      else dec_fix (Decimal False 1 n))"

text \<open>
  \<open>x.quantize(Decimal('0.000001'), rounding=ROUND_DOWN)\<close> is \<open>dec_quantize ROUND_DOWN x (-6)\<close>:
  the value at the given exponent, \<open>InvalidOperation\<close> when that takes more than \<open>prec\<close>
  digits.
\<close>

definition dec_quantize :: "rounding \<Rightarrow> decimal \<Rightarrow> int \<Rightarrow> error + decimal" where
  "dec_quantize mode d ex =
     (if \<not> (Etiny \<le> ex \<and> ex \<le> Emax) then Inl InvalidOperation
      else if dint d = 0 then dec_fix (Decimal (dsign d) 0 ex)
      else if Emax < adjusted d then Inl InvalidOperation
      else if int prec < adjusted d - ex + 1 then Inl InvalidOperation
      else let ans = dec_rescale mode d ex in
        if Emax < adjusted ans then Inl InvalidOperation
        else if prec < ndigits (dint ans) then Inl InvalidOperation
        else dec_fix ans)"

subsection \<open>Strings of numbers\<close>

definition digit_char :: "nat \<Rightarrow> char" where
  "digit_char n = ''0123456789'' ! (n mod 10)"

fun digits_str :: "nat \<Rightarrow> string" where
  "digits_str n = (if n < 10 then [digit_char n] else digits_str (n div 10) @ [digit_char n])"

declare digits_str.simps [simp del]

text \<open>\<open>str(d)\<close> for a \<open>Decimal\<close>: plain notation when the exponent is not positive and the
  number is not too small, scientific notation with a capital \<open>E\<close> otherwise.\<close>

definition dec_str :: "decimal \<Rightarrow> string" where
  "dec_str d =
     (let sign = (if dsign d then ''-'' else '''');
          ds = digits_str (dint d);
          leftdigits = dexp d + int (length ds);
          dotplace = (if dexp d \<le> 0 \<and> - 6 < leftdigits then leftdigits else 1);
          intpart = (if dotplace \<le> 0 then ''0''
                     else if int (length ds) \<le> dotplace
                       then ds @ replicate (nat (dotplace - int (length ds))) CHR ''0''
                     else take (nat dotplace) ds);
          fracpart = (if dotplace \<le> 0 then ''.'' @ replicate (nat (- dotplace)) CHR ''0'' @ ds
                      else if int (length ds) \<le> dotplace then ''''
                      else ''.'' @ drop (nat dotplace) ds);
          ex = (if leftdigits = dotplace then ''''
                 else ''E'' @ (if leftdigits - dotplace < 0 then ''-'' else ''+'')
                      @ digits_str (nat \<bar>leftdigits - dotplace\<bar>))
      in sign @ intpart @ fracpart @ ex)"

text \<open>
  Reading numerals. \<open>int(s)\<close> and \<open>Decimal(s)\<close> strip surrounding whitespace;
  \<open>int\<close> accepts single underscores between digits, \<open>Decimal\<close> removes every
  underscore. The strings that spell NaN and the infinities, which \<open>Decimal\<close> turns into
  special values, and digits outside ASCII are outside the model and are treated as
  malformed.
\<close>

definition is_space :: "char \<Rightarrow> bool" where
  "is_space c = (c \<in> set [CHR 0x09, CHR 0x0A, CHR 0x0B, CHR 0x0C, CHR 0x0D,
                           CHR 0x1C, CHR 0x1D, CHR 0x1E, CHR 0x1F, CHR 0x20])"

definition strip :: "string \<Rightarrow> string" where
  "strip s = rev (dropWhile is_space (rev (dropWhile is_space s)))"

definition is_digit :: "char \<Rightarrow> bool" where
  "is_digit c = (c \<in> set ''0123456789'')"

definition digit_val :: "char \<Rightarrow> nat" where
  "digit_val c = (case map_of (zip ''0123456789'' [0, 1, 2, 3, 4, 5, 6, 7, 8, 9]) c of
                    Some n \<Rightarrow> n | None \<Rightarrow> 0)"

definition nat_of_digits :: "string \<Rightarrow> nat" where
  "nat_of_digits s = foldl (\<lambda>acc c. 10 * acc + digit_val c) 0 s"

definition split_sign :: "string \<Rightarrow> bool \<times> string" where
  "split_sign s =
     (case s of
        [] \<Rightarrow> (False, [])
      | c # cs \<Rightarrow> if c = CHR ''-'' then (True, cs)
                  else if c = CHR ''+'' then (False, cs) else (False, s))"

fun underscores_ok :: "string \<Rightarrow> bool" where
  "underscores_ok [] = False"
| "underscores_ok [c] = is_digit c"
| "underscores_ok (c # c' # cs) =
     (if is_digit c then underscores_ok (c' # cs)
      else c = CHR ''_'' \<and> is_digit c' \<and> underscores_ok (c' # cs))"

definition py_int :: "string \<Rightarrow> error + int" where
  "py_int s =
     (case split_sign (strip s) of
        (neg, body) \<Rightarrow>
          if body \<noteq> [] \<and> is_digit (hd body) \<and> underscores_ok body
          then (let n = int (nat_of_digits (filter is_digit body))
                in Inr (if neg then - n else n))
          else Inl ValueError)"

definition Decimal_of_str :: "string \<Rightarrow> error + decimal" where
  "Decimal_of_str s =
     (case split_sign (filter (\<lambda>c. c \<noteq> CHR ''_'') (strip s)) of
        (neg, body) \<Rightarrow>
          let mant = takeWhile (\<lambda>c. c \<noteq> CHR ''e'' \<and> c \<noteq> CHR ''E'') body;
              rest = dropWhile (\<lambda>c. c \<noteq> CHR ''e'' \<and> c \<noteq> CHR ''E'') body;
              intpart = takeWhile (\<lambda>c. c \<noteq> CHR ''.'') mant;
              frac = drop 1 (dropWhile (\<lambda>c. c \<noteq> CHR ''.'') mant);
              mant_ok = (list_all is_digit intpart \<and> list_all is_digit frac \<and>
                         intpart @ frac \<noteq> [])
          in if \<not> mant_ok then Inl InvalidOperation
             else if rest = []
               then Inr (Decimal neg (nat_of_digits (intpart @ frac)) (- int (length frac)))
             else (case split_sign (drop 1 rest) of
                     (eneg, edigits) \<Rightarrow>
                       if edigits \<noteq> [] \<and> list_all is_digit edigits
                       then (let e = int (nat_of_digits edigits)
                             in Inr (Decimal neg (nat_of_digits (intpart @ frac))
                                       ((if eneg then - e else e) - int (length frac))))
                       else Inl InvalidOperation))"

section \<open>Python floats\<close>

text \<open>
  A float is an IEEE 754 double: a rational on the double grid, an infinity or NaN (the
  sign of zero is not kept; no comparison in the code depends on it).
  \<open>round_double\<close> rounds a rational to the nearest double, ties to even, as
  \<open>float(Decimal)\<close> and the float arithmetic do.
\<close>

datatype pyfloat = Float rat | PosInf | NegInf | NaN

fun bitlen :: "nat \<Rightarrow> nat" where
  "bitlen n = (if n = 0 then 0 else Suc (bitlen (n div 2)))"

declare bitlen.simps [simp del]

definition pow2 :: "int \<Rightarrow> rat" where
  "pow2 e = (if 0 \<le> e then 2 ^ nat e else 1 / 2 ^ nat (- e))"

definition floor_log2 :: "rat \<Rightarrow> int" where
  "floor_log2 a =
     (if 1 \<le> a then int (bitlen (nat \<lfloor>a\<rfloor>)) - 1 else - int (bitlen (nat (\<lceil>1 / a\<rceil> - 1))))"

definition round_half_even :: "rat \<Rightarrow> int" where
  "round_half_even x =
     (let f = \<lfloor>x\<rfloor>; d = x - of_int f
      in if 1 / 2 < d \<or> (d = 1 / 2 \<and> odd f) then f + 1 else f)"

definition round_double_pos :: "rat \<Rightarrow> rat option" where
  "round_double_pos a =
     (let t = max (floor_log2 a - 52) (- 1074);
          r = of_int (round_half_even (a / pow2 t)) * pow2 t
      in if 2 ^ 1024 \<le> r then None else Some r)"

definition round_double :: "rat \<Rightarrow> pyfloat" where
  "round_double q =
     (if q = 0 then Float 0
      else if 0 < q then (case round_double_pos q of Some r \<Rightarrow> Float r | None \<Rightarrow> PosInf)
      else (case round_double_pos (- q) of Some r \<Rightarrow> Float (- r) | None \<Rightarrow> NegInf))"

definition float_of_decimal :: "decimal \<Rightarrow> pyfloat" where
  "float_of_decimal d = round_double (dec_val d)"

definition float_of_int :: "int \<Rightarrow> pyfloat" where
  "float_of_int n = round_double (of_int n)"

definition fsub :: "pyfloat \<Rightarrow> pyfloat \<Rightarrow> pyfloat" where
  "fsub x y =
     (case (x, y) of
        (Float a, Float b) \<Rightarrow> round_double (a - b)
      | (Float a, PosInf) \<Rightarrow> NegInf
      | (Float a, NegInf) \<Rightarrow> PosInf
      | (PosInf, Float b) \<Rightarrow> PosInf
      | (PosInf, NegInf) \<Rightarrow> PosInf
      | (NegInf, Float b) \<Rightarrow> NegInf
      | (NegInf, PosInf) \<Rightarrow> NegInf
      | _ \<Rightarrow> NaN)"

definition fabs :: "pyfloat \<Rightarrow> pyfloat" where
  "fabs x = (case x of Float a \<Rightarrow> Float \<bar>a\<bar> | PosInf \<Rightarrow> PosInf | NegInf \<Rightarrow> PosInf | NaN \<Rightarrow> NaN)"

definition flt :: "pyfloat \<Rightarrow> pyfloat \<Rightarrow> bool" where
  "flt x y =
     (case (x, y) of
        (Float a, Float b) \<Rightarrow> a < b
      | (Float a, PosInf) \<Rightarrow> True
      | (NegInf, Float b) \<Rightarrow> True
      | (NegInf, PosInf) \<Rightarrow> True
      | _ \<Rightarrow> False)"

definition fle :: "pyfloat \<Rightarrow> pyfloat \<Rightarrow> bool" where
  "fle x y = (x \<noteq> NaN \<and> y \<noteq> NaN \<and> (x = y \<or> flt x y))"

text \<open>\<open>round(x)\<close> of a float, to an \<open>int\<close>: ties to even; infinities and NaN raise.\<close>

definition py_round :: "pyfloat \<Rightarrow> error + int" where
  "py_round x =
     (case x of Float a \<Rightarrow> Inr (round_half_even a)
      | PosInf \<Rightarrow> Inl OverflowError | NegInf \<Rightarrow> Inl OverflowError | NaN \<Rightarrow> Inl ValueError)"

text \<open>
  \<open>math.log10\<close> is the platform's library function, which is not part of the
  repository and need not round correctly. The model takes it as a parameter
  \<open>math_log10\<close>, from the positive finite doubles to the finite doubles; the logarithm of
  \<open>+inf\<close> is \<open>+inf\<close>. It is only called on positive arguments.
\<close>

definition py_log10 :: "(rat \<Rightarrow> rat) \<Rightarrow> pyfloat \<Rightarrow> pyfloat" where
  "py_log10 math_log10 x = (case x of Float a \<Rightarrow> Float (math_log10 a) | _ \<Rightarrow> x)"

text \<open>
  A float that comes from outside (the ETH price, the configured minimum amount) is
  given by the \<open>Decimal\<close> that \<open>Decimal(str(x))\<close> yields, which is finite for a finite
  float; \<open>str\<close> of a float reads back as the same float, so its value is
  \<open>float_of_decimal\<close> of that decimal.
\<close>

type_synonym float_repr = decimal

text \<open>A \<open>Decimal\<close> and a float compare by their exact values.\<close>

definition dec_ge_float :: "decimal \<Rightarrow> pyfloat \<Rightarrow> bool" where
  "dec_ge_float d x =
     (case x of Float a \<Rightarrow> a \<le> dec_val d | PosInf \<Rightarrow> False | NegInf \<Rightarrow> True | NaN \<Rightarrow> False)"

section \<open>Numeric conversion (utils.py)\<close>

definition caught_ValueError_TypeError_ZeroDivisionError :: "error \<Rightarrow> bool" where
  "caught_ValueError_TypeError_ZeroDivisionError e = (e = ValueError \<or> is_ZeroDivisionError e)"

definition caught_ValueError_TypeError_OverflowError :: "error \<Rightarrow> bool" where
  "caught_ValueError_TypeError_OverflowError e = (e = ValueError \<or> e = OverflowError)"

definition wei_to_ether :: "string \<Rightarrow> error + decimal" where
  "wei_to_ether wei =
     try_except caught_ValueError_TypeError_ZeroDivisionError (Decimal False 0 0)
       (bind (Decimal_of_str wei) (\<lambda>w. dec_div w (Decimal False 1000000000000000000 0)))"

definition format_token_amount :: "decimal \<Rightarrow> int \<Rightarrow> error + decimal" where
  "format_token_amount amount decimals =
     try_except caught_ValueError_TypeError_ZeroDivisionError (Decimal False 0 0)
       (if decimals = 0 then Inr amount
        else bind (dec_pow10 decimals) (\<lambda>divisor.
             bind (dec_div amount divisor) (\<lambda>q.
             dec_quantize ROUND_DOWN q (- 6))))"

definition common_amounts :: "int list" where
  "common_amounts =
     [100, 200, 500, 1000, 2000, 5000, 10000, 20000, 25000,
      50000, 100000, 200000, 500000, 1000000, 2000000, 5000000,
      10000000, 50000000, 100000000, 500000000, 1000000000]"

text \<open>The float literal \<open>0.001\<close>.\<close>

definition lit_0_001 :: pyfloat where
  "lit_0_001 = round_double (1 / 1000)"

text \<open>
  \<open>abs(log10_val - round(log10_val)) < 0.001\<close> inside its own \<open>try\<close>, whose handler
  (\<open>ValueError\<close>, \<open>OverflowError\<close>) passes on to the next check.
\<close>

definition log10_near_integer :: "(rat \<Rightarrow> rat) \<Rightarrow> pyfloat \<Rightarrow> bool" where
  "log10_near_integer math_log10 amount_float =
     (let log10_val = py_log10 math_log10 amount_float
      in case py_round log10_val of
           Inl e \<Rightarrow> False
         | Inr r \<Rightarrow> flt (fabs (fsub log10_val (float_of_int r))) lit_0_001)"

text \<open>
  \<open>is_round_number\<close>. On a finite \<open>Decimal\<close> nothing in the outer \<open>try\<close> raises:
  the comparison, \<open>str\<close> and \<open>float\<close> are total (\<open>float\<close> overflows to \<open>inf\<close>).
\<close>

definition is_round_number :: "(rat \<Rightarrow> rat) \<Rightarrow> decimal \<Rightarrow> bool" where
  "is_round_number math_log10 amount =
     (if dec_val amount \<le> 0 then False
      else let amount_str = dec_str amount;
               amount_float = float_of_decimal amount
           in if endswith amount_str ''000000'' \<or> endswith amount_str ''00000'' then True
              else if list_ex (\<lambda>common. flt (fabs (fsub amount_float (float_of_int common)))
                                          lit_0_001) common_amounts then True
              else if flt (Float 0) amount_float \<and> log10_near_integer math_log10 amount_float
                then True
              else if endswith amount_str ''9999'' \<or> endswith amount_str ''99999'' then True
              else False)"

text \<open>
  \<open>estimate_transaction_cost_usd\<close>. \<open>not gas_used\<close> holds for \<open>None\<close> and for 0,
  \<open>not gas_price\<close> for \<open>None\<close> and for the empty string. The handler names
  \<open>ValueError\<close>, \<open>TypeError\<close> and \<open>OverflowError\<close>, so an exception of the
  \<open>decimal\<close> module goes on to the caller.
\<close>

definition estimate_transaction_cost_usd ::
  "int option \<Rightarrow> string option \<Rightarrow> float_repr \<Rightarrow> error + decimal option" where
  "estimate_transaction_cost_usd gas_used gas_price eth_price_usd =
     try_except caught_ValueError_TypeError_OverflowError None
       (if gas_used = None \<or> gas_used = Some 0 \<or> gas_price = None \<or> gas_price = Some []
           \<or> fle (float_of_decimal eth_price_usd) (Float 0)
        then Inr None
        else bind (wei_to_ether (the gas_price)) (\<lambda>gas_price_ether.
             bind (dec_mul gas_price_ether (Decimal_of_int (the gas_used))) (\<lambda>eth_cost.
             bind (dec_mul eth_cost eth_price_usd) (\<lambda>usd_cost.
             Inr (Some usd_cost)))))"

section \<open>Data model (models.py, config.py)\<close>

text \<open>
  A \<open>datetime\<close> is kept as the number of seconds since the epoch it was made from; the
  code only stores and prints it.
\<close>

record TokenInfo =
  name :: string
  symbol :: string
  contract_address :: string
  decimals :: int
  total_supply :: "string option"

record WalletTransaction =
  wallet_address :: string
  tx_hash :: string
  block_number :: int
  timestamp :: int
  token_amount :: decimal
  token_amount_raw :: string
  direction :: string
  from_address :: string
  to_address :: string
  gas_used :: "int option"
  gas_price :: "string option"

text \<open>
  \<open>WalletAnalysis\<close>; its \<open>wallet_address\<close> field is written \<open>analysis_wallet_address\<close>
  here, the shorter name being taken by \<open>WalletTransaction\<close>.
\<close>

record WalletAnalysis =
  analysis_wallet_address :: string
  first_transaction :: WalletTransaction
  total_received :: decimal
  total_sent :: decimal
  net_position :: decimal
  transaction_count :: int
  estimated_eth_cost :: "decimal option"
  estimated_usd_value :: "decimal option"
  is_likely_buyer :: bool
  is_likely_airdrop :: bool

text \<open>\<open>TokenAnalysis\<close>, without \<open>analysis_date\<close> (the wall-clock time of the run).\<close>

record TokenAnalysis =
  token_info :: TokenInfo
  total_transactions :: int
  unique_wallets :: int
  earliest_wallets :: "WalletAnalysis list"

text \<open>The fields of \<open>Config\<close> that the analysis reads.\<close>

record Config =
  max_early_wallets :: int
  min_token_amount :: float_repr

text \<open>
  One row of the transfer history: a JSON object with string values. A field is
  \<open>None\<close> when the key is absent.
\<close>

record RawTransaction =
  raw_timeStamp :: "string option"
  raw_value :: "string option"
  raw_hash :: "string option"
  raw_blockNumber :: "string option"
  raw_from :: "string option"
  raw_to :: "string option"
  raw_gasUsed :: "string option"
  raw_gasPrice :: "string option"

section \<open>Transaction parser (utils.py)\<close>

text \<open>
  \<open>datetime.fromtimestamp\<close> raises \<open>ValueError\<close> or \<open>OverflowError\<close> outside the years
  1 to 9999 (the bounds move with the local time zone; they are given for UTC). Both are
  caught by the parser.
\<close>

definition fromtimestamp :: "int \<Rightarrow> error + int" where
  "fromtimestamp n =
     (if - 62135596800 \<le> n \<and> n \<le> 253402300799 then Inr n else Inl ValueError)"

text \<open>
  One turn of the parser's loop: \<open>Inr None\<close> when the row is skipped, \<open>Inl e\<close> when an
  exception that the handler does not name (one of the \<open>decimal\<close> module) leaves the
  function.
\<close>

definition parse_row :: "RawTransaction \<Rightarrow> TokenInfo \<Rightarrow> error + WalletTransaction option" where
  "parse_row tx token =
     (if raw_timeStamp tx = None \<or> raw_value tx = None \<or> raw_hash tx = None \<or>
         raw_blockNumber tx = None \<or> raw_from tx = None \<or> raw_to tx = None
      then Inr None
      else try_except caught_ValueError_TypeError_OverflowError None
        (bind (py_int (the (raw_timeStamp tx))) (\<lambda>ts.
         bind (fromtimestamp ts) (\<lambda>tstamp.
         let amount_raw = the (raw_value tx) in
         bind (Decimal_of_str amount_raw) (\<lambda>raw_amount.
         bind (format_token_amount raw_amount (decimals token)) (\<lambda>amount.
         let from_addr = normalize_address (the (raw_from tx));
             to_addr = normalize_address (the (raw_to tx))
         in if \<not> is_valid_ethereum_address from_addr \<or> \<not> is_valid_ethereum_address to_addr
            then Inr None
            else bind (py_int (the (raw_blockNumber tx))) (\<lambda>blk.
                 bind (case raw_gasUsed tx of
                         None \<Rightarrow> Inr None
                       | Some g \<Rightarrow> if g = [] then Inr None
                                   else bind (py_int g) (\<lambda>n. Inr (Some n))) (\<lambda>gused.
                 Inr (Some \<lparr>wallet_address = to_addr,
                            tx_hash = the (raw_hash tx),
                            block_number = blk,
                            timestamp = tstamp,
                            token_amount = amount,
                            token_amount_raw = amount_raw,
                            direction = ''in'',
                            from_address = from_addr,
                            to_address = to_addr,
                            gas_used = gused,
                            gas_price = raw_gasPrice tx\<rparr>)))))))))"

fun parse_loop ::
  "RawTransaction list \<Rightarrow> TokenInfo \<Rightarrow> WalletTransaction list
   \<Rightarrow> error + WalletTransaction list" where
  "parse_loop [] token transactions = Inr transactions"
| "parse_loop (tx # rest) token transactions =
     (case parse_row tx token of
        Inl e \<Rightarrow> Inl e
      | Inr None \<Rightarrow> parse_loop rest token transactions
      | Inr (Some transaction) \<Rightarrow> parse_loop rest token (transactions @ [transaction]))"

definition parse_etherscan_transactions ::
  "RawTransaction list \<Rightarrow> TokenInfo \<Rightarrow> error + WalletTransaction list" where
  "parse_etherscan_transactions raw_transactions token =
     (if raw_transactions = [] then Inr [] else parse_loop raw_transactions token [])"

section \<open>Wallet grouper (utils.py)\<close>

text \<open>
  A \<open>dict\<close> keeps its keys in the order of their first insertion, and the analysis
  iterates over it, so it is a list of pairs with distinct keys.
  \<open>dict_append k v d\<close> is \<open>d[k].append(v)\<close> on a \<open>defaultdict(list)\<close>.
\<close>

definition dict_get :: "(string \<times> 'a list) list \<Rightarrow> string \<Rightarrow> 'a list" where
  "dict_get d k = (case map_of d k of None \<Rightarrow> [] | Some vs \<Rightarrow> vs)"

definition dict_append :: "string \<Rightarrow> 'a \<Rightarrow> (string \<times> 'a list) list \<Rightarrow> (string \<times> 'a list) list" where
  "dict_append k v d =
     (if k \<in> fst ` set d
      then map (\<lambda>(k', vs). if k' = k then (k', vs @ [v]) else (k', vs)) d
      else d @ [(k, [v])])"

text \<open>
  The two records that one turn of the loop builds from \<open>tx\<close>: the copy for the
  recipient, with its two fields assigned, and the new record for the sender.
\<close>

definition recipient_tx :: "WalletTransaction \<Rightarrow> WalletTransaction" where
  "recipient_tx tx = tx\<lparr>wallet_address := to_address tx, direction := ''in''\<rparr>"

definition sender_tx :: "WalletTransaction \<Rightarrow> WalletTransaction" where
  "sender_tx tx =
     \<lparr>wallet_address = from_address tx,
      tx_hash = tx_hash tx,
      block_number = block_number tx,
      timestamp = timestamp tx,
      token_amount = token_amount tx,
      token_amount_raw = token_amount_raw tx,
      direction = ''out'',
      from_address = from_address tx,
      to_address = to_address tx,
      gas_used = gas_used tx,
      gas_price = gas_price tx\<rparr>"

definition group_step ::
  "(string \<times> WalletTransaction list) list \<Rightarrow> WalletTransaction
   \<Rightarrow> (string \<times> WalletTransaction list) list" where
  "group_step wallet_transactions tx =
     (let wallet_transactions = dict_append (to_address tx) (recipient_tx tx) wallet_transactions
      in if \<not> is_likely_contract (from_address tx)
         then dict_append (from_address tx) (sender_tx tx) wallet_transactions
         else wallet_transactions)"

definition group_transactions_by_wallet ::
  "WalletTransaction list \<Rightarrow> (string \<times> WalletTransaction list) list" where
  "group_transactions_by_wallet transactions = foldl group_step [] transactions"

subsection \<open>The grouper on a store of objects\<close>

text \<open>
  For the question of aliasing the records are objects in a store, and a list or a
  \<open>dict\<close> holds references to them. The fields of a record are strings, integers,
  decimals and a \<open>datetime\<close>, all immutable values, so a record has no object below it
  that could be shared: \<open>copy.deepcopy\<close> allocates one new record, and so does the
  constructor call. Assigning to a field of a record is \<open>store_update\<close>.
\<close>

record store =
  objs :: "nat \<Rightarrow> WalletTransaction option"
  next_ref :: nat

definition alloc :: "store \<Rightarrow> WalletTransaction \<Rightarrow> nat \<times> store" where
  "alloc s v = (next_ref s, s\<lparr>objs := (objs s)(next_ref s \<mapsto> v), next_ref := Suc (next_ref s)\<rparr>)"

definition store_update :: "store \<Rightarrow> nat \<Rightarrow> (WalletTransaction \<Rightarrow> WalletTransaction) \<Rightarrow> store" where
  "store_update s p f =
     (case objs s p of None \<Rightarrow> s | Some v \<Rightarrow> s\<lparr>objs := (objs s)(p \<mapsto> f v)\<rparr>)"

definition group_step_store ::
  "store \<times> (string \<times> nat list) list \<Rightarrow> nat \<Rightarrow> store \<times> (string \<times> nat list) list" where
  "group_step_store sd p =
     (case sd of (s, wallet_transactions) \<Rightarrow>
        (case objs s p of
           None \<Rightarrow> (s, wallet_transactions)
         | Some tx \<Rightarrow>
             (case alloc s tx of (recipient, s) \<Rightarrow>
                let s = store_update s recipient (\<lambda>r. r\<lparr>wallet_address := to_address tx\<rparr>);
                    s = store_update s recipient (\<lambda>r. r\<lparr>direction := ''in''\<rparr>);
                    wallet_transactions = dict_append (to_address tx) recipient wallet_transactions
                in if \<not> is_likely_contract (from_address tx)
                   then (case alloc s (sender_tx tx) of (sender, s) \<Rightarrow>
                           (s, dict_append (from_address tx) sender wallet_transactions))
                   else (s, wallet_transactions))))"

definition group_transactions_by_wallet_store ::
  "store \<Rightarrow> nat list \<Rightarrow> store \<times> (string \<times> nat list) list" where
  "group_transactions_by_wallet_store s transactions = foldl group_step_store (s, []) transactions"

text \<open>Every reference that the grouper has emitted, wallet after wallet.\<close>

definition emitted :: "(string \<times> nat list) list \<Rightarrow> nat list" where
  "emitted wallet_transactions = concat (map snd wallet_transactions)"

subsection \<open>Reading the store\<close>

text \<open>
  The invariant of the grouper's loop on the store: the keys of the \<open>dict\<close> are
  distinct, the emitted references are distinct and were all allocated by the loop (they
  lie between \<open>n0\<close>, the first free reference at the start, and the next free one), and
  the objects that existed at the start are as they were in the initial store \<open>s0\<close>.
\<close>

definition store_inv ::
  "nat \<Rightarrow> store \<Rightarrow> store \<times> (string \<times> nat list) list \<Rightarrow> bool" where
  "store_inv n0 s0 sd =
     (case sd of (s, d) \<Rightarrow>
        distinct (map fst d) \<and> distinct (emitted d) \<and>
        (\<forall>q \<in> set (emitted d). n0 \<le> q \<and> q < next_ref s) \<and>
        n0 \<le> next_ref s \<and>
        (\<forall>p < n0. objs s p = objs s0 p))"

text \<open>The records that a \<open>dict\<close> of references stands for in a store.\<close>

definition deref :: "store \<Rightarrow> (string \<times> nat list) list \<Rightarrow> (string \<times> WalletTransaction list) list" where
  "deref s d = map (\<lambda>(k, ps). (k, map (\<lambda>p. the (objs s p)) ps)) d"

section \<open>Wallet analyzer (utils.py)\<close>

text \<open>
  The totals: every \<open>+=\<close> is an addition in the context and can raise
  \<open>decimal.Overflow\<close>, which the inner handler (\<open>TypeError\<close>, \<open>ValueError\<close>) does not
  name.
\<close>

fun sum_totals ::
  "WalletTransaction list \<Rightarrow> decimal \<times> decimal \<Rightarrow> error + decimal \<times> decimal" where
  "sum_totals [] totals = Inr totals"
| "sum_totals (tx # rest) (received, sent) =
     (if direction tx = ''in''
      then bind (dec_add received (token_amount tx)) (\<lambda>r. sum_totals rest (r, sent))
      else bind (dec_add sent (token_amount tx)) (\<lambda>s. sum_totals rest (received, s)))"

text \<open>
  The two flags, as the code computes them from the sorted list and the total received.
\<close>

definition airdrop_flag :: "(rat \<Rightarrow> rat) \<Rightarrow> WalletTransaction list \<Rightarrow> decimal \<Rightarrow> bool" where
  "airdrop_flag math_log10 transactions received =
     (length transactions = 1 \<and>
      direction (hd transactions) = ''in'' \<and>
      is_likely_contract (from_address (hd transactions)) \<and>
      is_round_number math_log10 received)"

definition buyer_flag :: "(rat \<Rightarrow> rat) \<Rightarrow> WalletTransaction list \<Rightarrow> decimal \<Rightarrow> bool" where
  "buyer_flag math_log10 transactions received =
     (\<not> airdrop_flag math_log10 transactions received \<and>
      0 < dec_val received \<and>
      (\<not> is_round_number math_log10 received \<or>
       1 < length transactions \<or>
       (length transactions = 1 \<and> \<not> is_likely_contract (from_address (hd transactions)))))"

text \<open>
  \<open>analyze_wallet_transactions\<close>: the whole body is inside \<open>try ... except Exception\<close>, so
  every exception gives \<open>None\<close>. A \<open>Config\<close> object is always true in \<open>if config\<close>.
\<close>

definition analyze_wallet_transactions ::
  "(rat \<Rightarrow> rat) \<Rightarrow> string \<Rightarrow> WalletTransaction list \<Rightarrow> Config option \<Rightarrow> WalletAnalysis option" where
  "analyze_wallet_transactions math_log10 wallet_addr transactions0 config =
     (if transactions0 = [] then None
      else let transactions = sort_key block_number transactions0;
               first_tx = hd transactions
           in case sum_totals transactions (Decimal False 0 0, Decimal False 0 0) of
                Inl e \<Rightarrow> None
              | Inr (total_recv, total_snt) \<Rightarrow>
                  (case dec_sub total_recv total_snt of
                     Inl e \<Rightarrow> None
                   | Inr net \<Rightarrow>
                       if config \<noteq> None \<and>
                          dec_val total_recv < dec_val (min_token_amount (the config))
                       then None
                       else Some \<lparr>analysis_wallet_address = wallet_addr,
                                  first_transaction = first_tx,
                                  total_received = total_recv,
                                  total_sent = total_snt,
                                  net_position = net,
                                  transaction_count = int (length transactions),
                                  estimated_eth_cost = None,
                                  estimated_usd_value = None,
                                  is_likely_buyer = buyer_flag math_log10 transactions total_recv,
                                  is_likely_airdrop =
                                    airdrop_flag math_log10 transactions total_recv\<rparr>))"

section \<open>Ranking and assembly (main.py)\<close>

text \<open>\<open>xs[:n]\<close>: the first \<open>n\<close> elements, or all but the last \<open>-n\<close> when \<open>n\<close> is negative.\<close>

definition py_slice_to :: "'a list \<Rightarrow> int \<Rightarrow> 'a list" where
  "py_slice_to xs n = (if 0 \<le> n then take (nat n) xs else take (length xs - nat (- n)) xs)"

text \<open>
  The loop over the wallets. It stops at the first wallet it meets once
  \<open>max_early_wallets\<close> analyses are collected; an exception raised by the cost estimate
  leaves the function.
\<close>

fun analyze_loop ::
  "(rat \<Rightarrow> rat) \<Rightarrow> Config \<Rightarrow> float_repr \<Rightarrow> (string \<times> WalletTransaction list) list
   \<Rightarrow> WalletAnalysis list \<Rightarrow> error + WalletAnalysis list" where
  "analyze_loop math_log10 config eth_price_usd [] wallet_analyses = Inr wallet_analyses"
| "analyze_loop math_log10 config eth_price_usd ((wallet_addr, wallet_txs) # rest) wallet_analyses =
     (if max_early_wallets config \<le> int (length wallet_analyses) then Inr wallet_analyses
      else case analyze_wallet_transactions math_log10 wallet_addr wallet_txs (Some config) of
             None \<Rightarrow> analyze_loop math_log10 config eth_price_usd rest wallet_analyses
           | Some analysis \<Rightarrow>
               if dec_ge_float (total_received analysis)
                    (float_of_decimal (min_token_amount config))
               then (let ft = first_transaction analysis in
                     if gas_used ft \<noteq> None \<and> gas_used ft \<noteq> Some 0 \<and>
                        gas_price ft \<noteq> None \<and> gas_price ft \<noteq> Some [] \<and>
                        flt (Float 0) (float_of_decimal eth_price_usd)
                     then bind (estimate_transaction_cost_usd (gas_used ft) (gas_price ft)
                                  eth_price_usd)
                            (\<lambda>usd. analyze_loop math_log10 config eth_price_usd rest
                                     (wallet_analyses @ [analysis\<lparr>estimated_usd_value := usd\<rparr>]))
                     else analyze_loop math_log10 config eth_price_usd rest
                            (wallet_analyses @ [analysis]))
               else analyze_loop math_log10 config eth_price_usd rest wallet_analyses)"

text \<open>
  \<open>analyze_token_interactions\<close>. The two calls to the block explorer are outside the
  repository's logic: their results, the transfer history and the ETH price, are
  arguments.
\<close>

definition first_block :: "WalletAnalysis \<Rightarrow> int" where
  "first_block x = block_number (first_transaction x)"

definition analyze_token_interactions ::
  "(rat \<Rightarrow> rat) \<Rightarrow> TokenInfo \<Rightarrow> RawTransaction list \<Rightarrow> float_repr \<Rightarrow> Config
   \<Rightarrow> error + TokenAnalysis" where
  "analyze_token_interactions math_log10 token raw_transactions eth_price_usd config =
     (if raw_transactions = []
      then Inr \<lparr>token_info = token, total_transactions = 0, unique_wallets = 0,
                earliest_wallets = []\<rparr>
      else bind (parse_etherscan_transactions raw_transactions token) (\<lambda>transactions.
           let wallet_transactions = group_transactions_by_wallet transactions in
           bind (analyze_loop math_log10 config eth_price_usd wallet_transactions [])
             (\<lambda>wallet_analyses.
                let wallet_analyses = sort_key first_block wallet_analyses
                in Inr \<lparr>token_info = token,
                        total_transactions = int (length transactions),
                        unique_wallets = int (length wallet_transactions),
                        earliest_wallets =
                          py_slice_to wallet_analyses (max_early_wallets config)\<rparr>)))"

section \<open>What the specification expects, in its own words\<close>

text \<open>
  The grouping rule of the specification: for a parsed record \<open>r\<close>, the records expected
  under wallet \<open>w\<close> are one inbound record when \<open>w\<close> is the recipient, and one outbound
  record when \<open>w\<close> is the sender and the sender is not a likely contract.
\<close>

definition emitted_for :: "string \<Rightarrow> WalletTransaction \<Rightarrow> WalletTransaction list" where
  "emitted_for w r =
     (if to_address r = w then [r\<lparr>wallet_address := to_address r, direction := ''in''\<rparr>] else []) @
     (if from_address r = w \<and> \<not> is_likely_contract (from_address r)
      then [r\<lparr>wallet_address := from_address r, direction := ''out''\<rparr>] else [])"

text \<open>
  The round-number rule in the words of the specification: the round magnitudes are 100
  through 1,000,000,000 in a 1-2-5 progression, distances and the logarithm are those of
  the exact amount.
\<close>

definition spec_round_magnitudes :: "rat list" where
  "spec_round_magnitudes =
     [100, 200, 500, 1000, 2000, 5000, 10000, 20000, 50000, 100000, 200000, 500000,
      1000000, 2000000, 5000000, 10000000, 20000000, 50000000, 100000000, 200000000,
      500000000, 1000000000]"

definition spec_is_round_number :: "decimal \<Rightarrow> bool" where
  "spec_is_round_number amount =
     (0 < dec_val amount \<and>
      (endswith (dec_str amount) ''00000'' \<or>
       (\<exists>m \<in> set spec_round_magnitudes. \<bar>dec_val amount - m\<bar> < 1 / 1000) \<or>
       \<bar>log 10 (real_of_rat (dec_val amount)) -
         real_of_int (round (log 10 (real_of_rat (dec_val amount))))\<bar> < 1 / 1000 \<or>
       endswith (dec_str amount) ''9999''))"

section \<open>Example inputs\<close>

text \<open>
  The Uniswap V2 router, which is on the list of known contracts, two addresses that match
  none of the contract patterns, and transfers between them.
\<close>

definition router :: string where
  "router = ''0x7a250d5630b4cf539739df2c5dacb4c659f2488d''"

definition alice :: string where
  "alice = ''0x1234567890123456789012345678901234567890''"

definition bob :: string where
  "bob = ''0x1234567890123456789012345678901234567891''"

definition transfer :: "string \<Rightarrow> string \<Rightarrow> decimal \<Rightarrow> int \<Rightarrow> WalletTransaction" where
  "transfer sender recipient amount block =
     \<lparr>wallet_address = recipient,
      tx_hash = ''0xabc'',
      block_number = block,
      timestamp = 1600000000,
      token_amount = amount,
      token_amount_raw = ''0'',
      direction = ''in'',
      from_address = sender,
      to_address = recipient,
      gas_used = Some 21000,
      gas_price = Some ''20000000000''\<rparr>"

text \<open>\<open>Decimal('1000.000000')\<close>, the amount of 1000 tokens as the parser scales it.\<close>

definition thousand :: decimal where
  "thousand = Decimal False 1000000000 (- 6)"

definition default_config :: Config where
  "default_config = \<lparr>max_early_wallets = 50, min_token_amount = Decimal False 0 (- 1)\<rparr>"

text \<open>
  A transfer history of two rows for a token without decimals: the router sends 100000
  units to \<open>alice\<close> in block 100 and to \<open>bob\<close> in block 50. The ETH price is 2000.0.
\<close>

definition example_token :: TokenInfo where
  "example_token =
     \<lparr>name = ''Example'', symbol = ''EX'',
      contract_address = ''0x6b175474e89094c44da98b954eedeac495271d0f'',
      decimals = 0, total_supply = None\<rparr>"






definition eth_price_2000 :: float_repr where
  "eth_price_2000 = Decimal False 20000 (- 1)"

section \<open>Evaluating the model on the examples\<close>

lemmas ctx_defs = prec_def Etop_def Etiny_def Emax_def Emin_def

lemma floor_rat_numeral_div:
  "\<lfloor>(numeral a :: rat) / numeral b\<rfloor> = numeral a div numeral b"
  by (metis floor_divide_of_int_eq of_int_numeral)

lemma ceiling_rat_numeral_div:
  "\<lceil>(numeral a :: rat) / numeral b\<rceil> = - (- numeral a div numeral b)"
  by (metis ceiling_def floor_divide_of_int_eq minus_divide_left of_int_minus of_int_numeral)

lemmas float_defs = float_of_decimal_def round_double_def round_double_pos_def floor_log2_def
  round_half_even_def pow2_def dec_val_def pow10_def bitlen.simps floor_rat_numeral_div
  ceiling_rat_numeral_div

lemma float_price: "float_of_decimal (Decimal False 20000 (- 1)) = Float 2000"
  by (simp add: float_defs Let_def)

lemma float_zero: "float_of_decimal (Decimal False 0 (- 1)) = Float 0"
  by (simp add: float_defs Let_def)

lemma float_25000: "float_of_decimal (Decimal False 25000 0) = Float 25000"
  by (simp add: float_defs Let_def)

lemma lit_0_001_eq: "lit_0_001 = Float (1152921504606847 / 1152921504606846976)"
  by (simp add: lit_0_001_def float_defs Let_def)

lemma parse_gas_price: "Decimal_of_str ''20000000000'' = Inr (Decimal False 20000000000 0)"
  by (simp add: Decimal_of_str_def strip_def is_space_def split_sign_def is_digit_def
      nat_of_digits_def digit_val_def Let_def)

lemma wei_to_ether_gas_price: "wei_to_ether ''20000000000'' = Inr (Decimal False 2 (- 8))"
  by (simp add: wei_to_ether_def parse_gas_price bind_def try_except_def dec_div_def dec_fix_def
      ndigits.simps strip_zeros.simps ctx_defs Let_def)


lemma cost_zero_price:
  "estimate_transaction_cost_usd (Some 21000) (Some ''20000000000'') (Decimal False 0 (- 1))
   = Inr None"
  by (simp add: estimate_transaction_cost_usd_def float_zero fle_def try_except_def)

lemma dec_str_thousand: "dec_str thousand = ''1000.000000''"
  by (simp add: thousand_def dec_str_def digits_str.simps digit_char_def Let_def)

lemma is_round_number_thousand: "is_round_number math_log10 thousand"
  by (simp add: is_round_number_def dec_str_thousand endswith_def Let_def)
     (simp add: thousand_def dec_val_def pow10_def)

lemma zero_plus_thousand: "dec_add (Decimal False 0 0) thousand = Inr thousand"
  by (simp add: thousand_def dec_add_def dec_rescale_def dec_fix_def ndigits.simps prec_def
      Etop_def Etiny_def Emax_def Emin_def Let_def)

lemma thousand_minus_zero: "dec_sub thousand (Decimal False 0 0) = Inr thousand"
  by (simp add: thousand_def dec_sub_def dec_neg_def dec_add_def dec_rescale_def dec_fix_def
      ndigits.simps prec_def Etop_def Etiny_def Emax_def Emin_def Let_def)

lemma is_likely_contract_router: "is_likely_contract router"
  by (simp add: router_def is_likely_contract_def normalize_address_def lower_def lower_char_def
      startswith_def is_valid_ethereum_address_def re_match_hex40_def is_hex_char_def
      special_addresses_def known_contracts_def Let_def)

lemma not_contract_alice: "\<not> is_likely_contract alice"
  by (simp add: alice_def is_likely_contract_def normalize_address_def lower_def lower_char_def
      startswith_def endswith_def is_valid_ethereum_address_def re_match_hex40_def is_hex_char_def
      special_addresses_def known_contracts_def Let_def)

lemma transfer_sel:
  "direction (transfer s r a b) = ''in''" "token_amount (transfer s r a b) = a"
  "from_address (transfer s r a b) = s" "to_address (transfer s r a b) = r"
  "block_number (transfer s r a b) = b" "wallet_address (transfer s r a b) = r"
  by (simp_all add: transfer_def)

lemma analyze_airdrop_example:
  "analyze_wallet_transactions math_log10 alice [transfer router alice thousand 100]
     (Some default_config) =
   Some \<lparr>analysis_wallet_address = alice,
         first_transaction = transfer router alice thousand 100,
         total_received = thousand,
         total_sent = Decimal False 0 0,
         net_position = thousand,
         transaction_count = 1,
         estimated_eth_cost = None,
         estimated_usd_value = None,
         is_likely_buyer = False,
         is_likely_airdrop = True\<rparr>"
proof -
  have thr: "\<not> dec_val thousand < dec_val (min_token_amount default_config)"
    by (simp add: default_config_def thousand_def dec_val_def pow10_def)
  have fl: "airdrop_flag math_log10 [transfer router alice thousand 100] thousand"
    by (simp add: airdrop_flag_def transfer_sel is_round_number_thousand
        is_likely_contract_router)
  show ?thesis
    by (simp add: analyze_wallet_transactions_def Let_def transfer_sel bind_def
        zero_plus_thousand thousand_minus_zero thr fl buyer_flag_def)
qed

section \<open>The wallet analyzer\<close>

text \<open>
  C2: whenever \<open>analyze_wallet_transactions\<close> returns a summary, \<open>is_likely_buyer\<close> and
  \<open>is_likely_airdrop\<close> are not both true.
\<close>

theorem C2_flags_mutually_exclusive:
  "analyze_wallet_transactions math_log10 wallet_addr transactions config = Some a
   \<Longrightarrow> \<not> (is_likely_buyer a \<and> is_likely_airdrop a)"
  by (auto simp: analyze_wallet_transactions_def buyer_flag_def Let_def
      split: if_splits sum.splits prod.splits)

theorem C2_flags_mutually_exclusive_witness:
  "analyze_wallet_transactions (\<lambda>x. 0) alice [transfer router alice thousand 100]
     (Some default_config) \<noteq> None \<and>
   \<not> (is_likely_buyer (the (analyze_wallet_transactions (\<lambda>x. 0) alice
            [transfer router alice thousand 100] (Some default_config))) \<and>
      is_likely_airdrop (the (analyze_wallet_transactions (\<lambda>x. 0) alice
            [transfer router alice thousand 100] (Some default_config))))"
proof -
  note e = analyze_airdrop_example [of "\<lambda>x. 0"]
  from C2_flags_mutually_exclusive [OF e] show ?thesis by (simp add: e)
qed

text \<open>
  C3: for a wallet with exactly one record that is inbound and comes from a likely contract,
  every summary the analyzer returns whose total received is a round number has
  \<open>is_likely_airdrop\<close> true and \<open>is_likely_buyer\<close> false. (The analyzer returns no
  summary at all for a wallet whose total is below the configured minimum.) The witness is
  the single transfer of 1000 tokens from the Uniswap router.
\<close>

theorem C3_single_round_contract_transfer_is_airdrop:
  assumes "analyze_wallet_transactions math_log10 wallet_addr [r] config = Some a"
    and "direction r = ''in''"
    and "is_likely_contract (from_address r)"
    and "is_round_number math_log10 (total_received a)"
  shows "is_likely_airdrop a \<and> \<not> is_likely_buyer a"
  using assms
  by (auto simp: analyze_wallet_transactions_def buyer_flag_def airdrop_flag_def Let_def
      split: if_splits sum.splits prod.splits)

theorem C3_single_round_contract_transfer_is_airdrop_witness:
  "analyze_wallet_transactions (\<lambda>x. 0) alice [transfer router alice thousand 100]
     (Some default_config) \<noteq> None \<and>
   direction (transfer router alice thousand 100) = ''in'' \<and>
   is_likely_contract (from_address (transfer router alice thousand 100)) \<and>
   is_round_number (\<lambda>x. 0) (total_received (the (analyze_wallet_transactions (\<lambda>x. 0) alice
      [transfer router alice thousand 100] (Some default_config)))) \<and>
   is_likely_airdrop (the (analyze_wallet_transactions (\<lambda>x. 0) alice
      [transfer router alice thousand 100] (Some default_config))) \<and>
   \<not> is_likely_buyer (the (analyze_wallet_transactions (\<lambda>x. 0) alice
      [transfer router alice thousand 100] (Some default_config)))"
proof -
  note e = analyze_airdrop_example [of "\<lambda>x. 0"]
  have d: "direction (transfer router alice thousand 100) = ''in''"
    by (simp add: transfer_sel)
  have c: "is_likely_contract (from_address (transfer router alice thousand 100))"
    by (simp add: transfer_sel is_likely_contract_router)
  have r: "is_round_number (\<lambda>x. 0) (total_received (the (analyze_wallet_transactions
      (\<lambda>x. 0) alice [transfer router alice thousand 100] (Some default_config))))"
    by (simp add: e is_round_number_thousand)
  have r': "is_round_number (\<lambda>x. 0) (total_received
      \<lparr>analysis_wallet_address = alice,
         first_transaction = transfer router alice thousand 100,
         total_received = thousand,
         total_sent = Decimal False 0 0,
         net_position = thousand,
         transaction_count = 1,
         estimated_eth_cost = None,
         estimated_usd_value = None,
         is_likely_buyer = False,
         is_likely_airdrop = True\<rparr>)"
    by (simp add: is_round_number_thousand)
  from C3_single_round_contract_transfer_is_airdrop [OF e d c r'] d c r
  show ?thesis by (simp add: e)
qed

section \<open>Evaluating the pipeline on the example history\<close>

lemmas str_defs = strip_def is_space_def split_sign_def is_digit_def nat_of_digits_def
  digit_val_def















section \<open>The wallet grouper\<close>

lemma dict_append_keys:
  "map fst (dict_append k v d) = (if k \<in> fst ` set d then map fst d else map fst d @ [k])"
  by (auto simp: dict_append_def split: prod.splits)

lemma dict_append_distinct:
  "distinct (map fst d) \<Longrightarrow> distinct (map fst (dict_append k v d))"
  by (auto simp: dict_append_keys)

lemma map_of_dict_append:
  "distinct (map fst d) \<Longrightarrow>
   map_of (dict_append k v d) w =
     (if w = k then Some (dict_get d k @ [v]) else map_of d w)"
proof (induction d)
  case Nil
  then show ?case by (simp add: dict_append_def dict_get_def)
next
  case (Cons kv d)
  obtain k' vs where kv: "kv = (k', vs)" by (cases kv)
  from Cons.prems have d: "distinct (map fst d)" and nk: "k' \<notin> fst ` set d"
    by (auto simp: kv)
  show ?case
  proof (cases "k' = k")
    case True
    have "map (\<lambda>(k', vs). if k' = k then (k', vs @ [v]) else (k', vs)) d = d"
      by (rule map_idI) (use nk True in force)
    then have "dict_append k v (kv # d) = (k, vs @ [v]) # d"
      by (simp add: dict_append_def kv True)
    then show ?thesis by (simp add: dict_get_def kv True)
  next
    case False
    have "dict_append k v (kv # d) = kv # dict_append k v d"
      using False by (auto simp: dict_append_def kv)
    then show ?thesis
      using Cons.IH [OF d] False by (auto simp: kv dict_get_def)
  qed
qed

lemma dict_get_dict_append:
  "distinct (map fst d) \<Longrightarrow>
   dict_get (dict_append k v d) w = dict_get d w @ (if w = k then [v] else [])"
  by (simp add: dict_get_def map_of_dict_append)

lemma sender_tx_eq: "sender_tx r = r\<lparr>wallet_address := from_address r, direction := ''out''\<rparr>"
  by (simp add: sender_tx_def)

lemma group_step_distinct:
  "distinct (map fst d) \<Longrightarrow> distinct (map fst (group_step d r))"
  by (simp add: group_step_def Let_def dict_append_distinct)

lemma group_step_get:
  "distinct (map fst d) \<Longrightarrow> dict_get (group_step d r) w = dict_get d w @ emitted_for w r"
  by (simp add: group_step_def Let_def dict_get_dict_append dict_append_distinct emitted_for_def
      recipient_tx_def sender_tx_eq)

lemma foldl_group_step:
  "distinct (map fst d) \<Longrightarrow>
   distinct (map fst (foldl group_step d txs)) \<and>
   dict_get (foldl group_step d txs) w = dict_get d w @ concat (map (emitted_for w) txs)"
proof (induction txs arbitrary: d)
  case Nil
  then show ?case by simp
next
  case (Cons r txs)
  from Cons.IH [OF group_step_distinct [OF Cons.prems]] show ?case
    by (simp add: group_step_get [OF Cons.prems])
qed

text \<open>
  C4: the records grouped under a wallet \<open>w\<close> are, in the order of the parsed records,
  what the grouping rule expects for each parsed record \<open>r\<close>: under \<open>r.to\<close> exactly one
  record with direction \<open>in\<close>, and under \<open>r.from\<close> exactly one record with direction
  \<open>out\<close>, equal to \<open>r\<close> in every field but \<open>wallet_address = r.from\<close> and the
  direction, if and only if \<open>r.from\<close> is not a likely contract.
\<close>

theorem C4_grouping_emits_per_record:
  "dict_get (group_transactions_by_wallet transactions) w =
     concat (map (emitted_for w) transactions) \<and>
   distinct (map fst (group_transactions_by_wallet transactions)) \<and>
   length (filter (\<lambda>x. direction x = ''in'') (emitted_for (to_address r) r)) = 1 \<and>
   filter (\<lambda>x. direction x = ''out'') (emitted_for (from_address r) r) =
     (if is_likely_contract (from_address r) then []
      else [r\<lparr>wallet_address := from_address r, direction := ''out''\<rparr>])"
  using foldl_group_step [of "[]" transactions w]
  by (simp add: group_transactions_by_wallet_def dict_get_def emitted_for_def)

theorem C4_grouping_emits_per_record_witness:
  "dict_get (group_transactions_by_wallet [transfer alice bob thousand 100]) bob =
     [(transfer alice bob thousand 100)\<lparr>wallet_address := bob, direction := ''in''\<rparr>] \<and>
   dict_get (group_transactions_by_wallet [transfer alice bob thousand 100]) alice =
     [(transfer alice bob thousand 100)\<lparr>wallet_address := alice, direction := ''out''\<rparr>] \<and>
   dict_get (group_transactions_by_wallet [transfer router bob thousand 100]) router = []"
proof -
  have ne: "alice \<noteq> bob" "bob \<noteq> router" by (simp_all add: alice_def bob_def router_def)
  from C4_grouping_emits_per_record [of "[transfer alice bob thousand 100]" bob]
    C4_grouping_emits_per_record [of "[transfer alice bob thousand 100]" alice]
    C4_grouping_emits_per_record [of "[transfer router bob thousand 100]" router]
  show ?thesis
    using ne by (simp add: emitted_for_def transfer_sel not_contract_alice is_likely_contract_router)
qed

section \<open>Aliasing in the wallet grouper\<close>

lemma emitted_dict_append:
  "distinct (map fst d) \<Longrightarrow> mset (emitted (dict_append k v d)) = add_mset v (mset (emitted d))"
proof (induction d)
  case Nil
  then show ?case by (simp add: dict_append_def emitted_def)
next
  case (Cons kv d)
  obtain k' vs where kv: "kv = (k', vs)" by (cases kv)
  from Cons.prems have d: "distinct (map fst d)" and nk: "k' \<notin> fst ` set d"
    by (auto simp: kv)
  show ?case
  proof (cases "k' = k")
    case True
    have "map (\<lambda>(k', vs). if k' = k then (k', vs @ [v]) else (k', vs)) d = d"
      by (rule map_idI) (use nk True in force)
    then have "dict_append k v (kv # d) = (k, vs @ [v]) # d"
      by (simp add: dict_append_def kv True)
    then show ?thesis by (simp add: emitted_def kv True)
  next
    case False
    have "dict_append k v (kv # d) = kv # dict_append k v d"
      using False by (auto simp: dict_append_def kv)
    then show ?thesis
      using Cons.IH [OF d] by (simp add: emitted_def kv)
  qed
qed

lemma emitted_dict_append_set:
  "distinct (map fst d) \<Longrightarrow> set (emitted (dict_append k v d)) = insert v (set (emitted d))"
  using emitted_dict_append [of d k v] by (metis set_mset_add_mset_insert set_mset_mset)

lemma emitted_dict_append_distinct:
  "distinct (map fst d) \<Longrightarrow>
   distinct (emitted (dict_append k v d)) = (v \<notin> set (emitted d) \<and> distinct (emitted d))"
proof -
  assume "distinct (map fst d)"
  then have "mset (emitted (dict_append k v d)) = mset (v # emitted d)"
    by (simp add: emitted_dict_append)
  then have "distinct (emitted (dict_append k v d)) = distinct (v # emitted d)"
    by (rule mset_eq_imp_distinct_iff)
  then show ?thesis by simp
qed

lemma group_step_store_inv:
  assumes "store_inv n0 s0 sd"
  shows "store_inv n0 s0 (group_step_store sd p)"
proof -
  obtain s d where sd: "sd = (s, d)" by (cases sd)
  from assms have dk: "distinct (map fst d)" and de: "distinct (emitted d)"
    and rng: "\<forall>q \<in> set (emitted d). n0 \<le> q \<and> q < next_ref s"
    and n0: "n0 \<le> next_ref s" and old: "\<forall>p < n0. objs s p = objs s0 p"
    by (auto simp: store_inv_def sd)
  show ?thesis
  proof (cases "objs s p")
    case None
    then show ?thesis using assms by (simp add: group_step_store_def sd)
  next
    case (Some tx)
    let ?d1 = "dict_append (to_address tx) (next_ref s) d"
    have fresh1: "next_ref s \<notin> set (emitted d)" using rng by auto
    have dk1: "distinct (map fst ?d1)" using dk by (rule dict_append_distinct)
    have de1: "distinct (emitted ?d1)"
      using dk de fresh1 by (simp add: emitted_dict_append_distinct)
    have set1: "set (emitted ?d1) = insert (next_ref s) (set (emitted d))"
      using dk by (rule emitted_dict_append_set)
    have fresh2: "Suc (next_ref s) \<notin> set (emitted ?d1)" using rng by (auto simp: set1)
    show ?thesis
      using Some dk1 de1 set1 rng n0 old fresh2
      by (auto simp: group_step_store_def sd alloc_def store_update_def store_inv_def Let_def
          dict_append_distinct emitted_dict_append_distinct emitted_dict_append_set)
  qed
qed

lemma foldl_group_step_store_inv:
  "store_inv n0 s0 sd \<Longrightarrow> store_inv n0 s0 (foldl group_step_store sd ps)"
  by (induction ps arbitrary: sd) (simp_all add: group_step_store_inv)

lemma store_update_other: "p \<noteq> q \<Longrightarrow> objs (store_update s q f) p = objs s p"
  by (simp add: store_update_def split: option.splits)

lemma deref_dict_append:
  "deref s (dict_append k r d) = dict_append k (the (objs s r)) (deref s d)"
  by (auto simp: deref_def dict_append_def image_iff split: prod.splits)

lemma deref_cong:
  "(\<forall>q \<in> set (emitted d). objs s1 q = objs s q) \<Longrightarrow> deref s1 d = deref s d"
  by (auto simp: deref_def emitted_def)

lemma group_step_store_deref:
  assumes inv: "store_inv n0 s0 (s, d)" and p: "p < n0" and tx: "objs s0 p = Some tx"
  shows "deref (fst (group_step_store (s, d) p)) (snd (group_step_store (s, d) p)) =
         group_step (deref s d) tx"
proof -
  from inv have rng: "\<forall>q \<in> set (emitted d). q < next_ref s"
    and n0: "n0 \<le> next_ref s" and old: "\<forall>p < n0. objs s p = objs s0 p"
    and dk: "distinct (map fst d)"
    by (auto simp: store_inv_def)
  from old p tx have ptx: "objs s p = Some tx" by simp
  let ?r = "next_ref s"
  let ?d1 = "dict_append (to_address tx) ?r d"
  have set1: "set (emitted ?d1) = insert ?r (set (emitted d))"
    using dk by (rule emitted_dict_append_set)
  show ?thesis
  proof (cases "is_likely_contract (from_address tx)")
    case True
    let ?s1 = "s\<lparr>objs := (objs s)(?r \<mapsto> recipient_tx tx), next_ref := Suc ?r\<rparr>"
    have step: "group_step_store (s, d) p = (?s1, ?d1)"
      using ptx True
      by (simp add: group_step_store_def alloc_def store_update_def Let_def recipient_tx_def)
    have "deref ?s1 d = deref s d"
      by (rule deref_cong) (use rng in auto)
    then show ?thesis
      using True by (simp add: step deref_dict_append group_step_def Let_def)
  next
    case False
    let ?s2 = "s\<lparr>objs := (objs s)(?r \<mapsto> recipient_tx tx, Suc ?r \<mapsto> sender_tx tx),
                 next_ref := Suc (Suc ?r)\<rparr>"
    have step: "group_step_store (s, d) p =
        (?s2, dict_append (from_address tx) (Suc ?r) ?d1)"
      using ptx False
      by (simp add: group_step_store_def alloc_def store_update_def Let_def recipient_tx_def)
    have "deref ?s2 d = deref s d"
      by (rule deref_cong) (use rng in auto)
    then show ?thesis
      using False by (simp add: step deref_dict_append group_step_def Let_def)
  qed
qed

lemma foldl_group_step_store_deref:
  assumes "store_inv n0 s0 sd" and "\<forall>p \<in> set ps. p < n0 \<and> objs s0 p \<noteq> None"
  shows "deref (fst (foldl group_step_store sd ps)) (snd (foldl group_step_store sd ps)) =
         foldl group_step (deref (fst sd) (snd sd)) (map (\<lambda>p. the (objs s0 p)) ps)"
  using assms
proof (induction ps arbitrary: sd)
  case Nil
  then show ?case by simp
next
  case (Cons p ps)
  obtain s d where sd: "sd = (s, d)" by (cases sd)
  from Cons.prems(2) obtain tx where tx: "objs s0 p = Some tx" and p: "p < n0" by auto
  have inv': "store_inv n0 s0 (group_step_store sd p)"
    using Cons.prems(1) by (rule group_step_store_inv)
  have "deref (fst (group_step_store sd p)) (snd (group_step_store sd p)) =
        group_step (deref s d) tx"
    using Cons.prems(1) p tx unfolding sd by (rule group_step_store_deref)
  with Cons.IH [OF inv'] Cons.prems(2) show ?case
    by (simp add: sd tx)
qed

lemma group_store_refines:
  assumes "\<forall>p \<in> set transactions. p < next_ref s \<and> objs s p \<noteq> None"
    and "group_transactions_by_wallet_store s transactions = (s', d)"
  shows "deref s' d = group_transactions_by_wallet (map (\<lambda>p. the (objs s p)) transactions)"
proof -
  have "store_inv (next_ref s) s (s, [])"
    by (simp add: store_inv_def emitted_def)
  from foldl_group_step_store_deref [OF this assms(1)] assms(2) show ?thesis
    by (simp add: group_transactions_by_wallet_store_def group_transactions_by_wallet_def
        deref_def)
qed

text \<open>
  C5: grouping never aliases. When the parsed records are objects of the store, every
  record the grouper emits is a new object: the emitted references are pairwise distinct and
  none of them is a parsed record, and the grouper leaves the parsed records as they were. So
  assigning to a field of one emitted record (\<open>store_update\<close> with any \<open>f\<close>) leaves every
  other emitted record, the copy for the other wallet of the same transfer included, and
  every parsed record unchanged.
\<close>

theorem C5_grouping_never_aliases:
  assumes "\<forall>p \<in> set transactions. p < next_ref s"
    and "group_transactions_by_wallet_store s transactions = (s', d)"
  shows "distinct (emitted d) \<and>
         (\<forall>q \<in> set (emitted d). q \<notin> set transactions) \<and>
         (\<forall>p \<in> set transactions. objs s' p = objs s p) \<and>
         (\<forall>i < length (emitted d). \<forall>j < length (emitted d). i \<noteq> j \<longrightarrow>
            objs (store_update s' (emitted d ! i) f) (emitted d ! j) = objs s' (emitted d ! j)) \<and>
         (\<forall>i < length (emitted d). \<forall>p \<in> set transactions.
            objs (store_update s' (emitted d ! i) f) p = objs s p)"
proof -
  have "store_inv (next_ref s) s (s, [])"
    by (simp add: store_inv_def emitted_def)
  then have "store_inv (next_ref s) s (s', d)"
    using foldl_group_step_store_inv [of "next_ref s" s "(s, [])" transactions] assms(2)
    by (simp add: group_transactions_by_wallet_store_def)
  then have de: "distinct (emitted d)"
    and rng: "\<forall>q \<in> set (emitted d). next_ref s \<le> q"
    and old: "\<forall>p < next_ref s. objs s' p = objs s p"
    by (auto simp: store_inv_def)
  have fresh: "\<forall>q \<in> set (emitted d). q \<notin> set transactions"
    using rng assms(1) by fastforce
  have same: "\<forall>p \<in> set transactions. objs s' p = objs s p"
    using old assms(1) by auto
  have pair: "\<forall>i < length (emitted d). \<forall>j < length (emitted d). i \<noteq> j \<longrightarrow>
      objs (store_update s' (emitted d ! i) f) (emitted d ! j) = objs s' (emitted d ! j)"
    using de by (auto simp: store_update_other nth_eq_iff_index_eq)
  have orig: "\<forall>i < length (emitted d). \<forall>p \<in> set transactions.
      objs (store_update s' (emitted d ! i) f) p = objs s p"
  proof (intro allI impI ballI)
    fix i p assume i: "i < length (emitted d)" and p: "p \<in> set transactions"
    from i have "emitted d ! i \<in> set (emitted d)" by simp
    with fresh p have "p \<noteq> emitted d ! i" by auto
    then show "objs (store_update s' (emitted d ! i) f) p = objs s p"
      using same p by (simp add: store_update_other)
  qed
  from de fresh same pair orig show ?thesis by blast
qed

text \<open>
  The witness: one parsed record at reference 0, a transfer between two wallets. The
  grouper allocates references 1 and 2; changing the record at 1 leaves the records at 2 and
  at 0 as they were.
\<close>

theorem C5_grouping_never_aliases_witness:
  "group_transactions_by_wallet_store
     \<lparr>objs = [0 \<mapsto> transfer alice bob thousand 100], next_ref = 1\<rparr> [0] =
   (\<lparr>objs = [0 \<mapsto> transfer alice bob thousand 100,
              1 \<mapsto> recipient_tx (transfer alice bob thousand 100),
              2 \<mapsto> sender_tx (transfer alice bob thousand 100)], next_ref = 3\<rparr>,
    [(bob, [1]), (alice, [2])]) \<and>
   distinct (emitted [(bob, [1 :: nat]), (alice, [2])]) \<and>
   objs (store_update
          \<lparr>objs = [0 \<mapsto> transfer alice bob thousand 100,
                   1 \<mapsto> recipient_tx (transfer alice bob thousand 100),
                   2 \<mapsto> sender_tx (transfer alice bob thousand 100)], next_ref = 3\<rparr>
          1 (\<lambda>r. r\<lparr>token_amount := Decimal False 0 0\<rparr>)) 0 =
     Some (transfer alice bob thousand 100)"
proof -
  let ?s = "\<lparr>objs = [0 \<mapsto> transfer alice bob thousand 100], next_ref = 1\<rparr>"
  let ?s' = "\<lparr>objs = [0 \<mapsto> transfer alice bob thousand 100,
              1 \<mapsto> recipient_tx (transfer alice bob thousand 100),
              2 \<mapsto> sender_tx (transfer alice bob thousand 100)], next_ref = 3\<rparr>"
  have ne: "alice \<noteq> bob" by (simp add: alice_def bob_def)
  have run: "group_transactions_by_wallet_store ?s [0] = (?s', [(bob, [1]), (alice, [2])])"
    using ne
    by (simp add: group_transactions_by_wallet_store_def group_step_store_def alloc_def
        store_update_def Let_def transfer_sel not_contract_alice dict_append_def
        recipient_tx_def fun_upd_twist numeral_2_eq_2 numeral_3_eq_3)
  have live: "\<forall>p \<in> set [0 :: nat]. p < next_ref ?s" by simp
  from C5_grouping_never_aliases [OF live run, of "\<lambda>r. r\<lparr>token_amount := Decimal False 0 0\<rparr>"]
  have "distinct (emitted [(bob, [1 :: nat]), (alice, [2])])"
    and "\<forall>i < length (emitted [(bob, [1 :: nat]), (alice, [2])]). \<forall>p \<in> set [0 :: nat].
           objs (store_update ?s' (emitted [(bob, [1]), (alice, [2])] ! i)
                  (\<lambda>r. r\<lparr>token_amount := Decimal False 0 0\<rparr>)) p = objs ?s p"
    by blast+
  from this(1) this(2) [rule_format, of 0 0] run show ?thesis
    by (simp add: emitted_def)
qed

section \<open>Cost estimation\<close>

lemma pow2_pos: "0 < pow2 t"
  by (simp add: pow2_def)

lemma round_half_even_nonneg: "0 \<le> x \<Longrightarrow> 0 \<le> round_half_even x"
  by (auto simp: round_half_even_def Let_def)

lemma round_double_pos_nonneg: "0 < a \<Longrightarrow> round_double_pos a = Some r \<Longrightarrow> 0 \<le> r"
  by (auto simp: round_double_pos_def Let_def round_half_even_nonneg pow2_pos less_imp_le
      split: if_splits)

lemma fle_round_double_nonpos: "q \<le> 0 \<Longrightarrow> fle (round_double q) (Float 0)"
  by (auto simp: round_double_def fle_def flt_def split: option.splits
      dest!: round_double_pos_nonneg [rotated])

lemma flt_zero_not_fle: "flt (Float 0) x \<Longrightarrow> \<not> fle x (Float 0)"
  by (cases x) (auto simp: flt_def fle_def)

lemma parse_zero: "Decimal_of_str ''0'' = Inr (Decimal False 0 0)"
  by (simp add: Decimal_of_str_def str_defs Let_def)

text \<open>
  C6, as stated, fails: a gas price of \<open>"0"\<close> is not positive, yet the estimate is not
  nothing but the decimal zero. The guard \<open>not gas_price\<close> only rejects a missing or
  empty string (and \<open>not gas_used\<close> only a missing or zero count).
\<close>

theorem C6_zero_gas_price_counterexample:
  "Decimal_of_str ''0'' = Inr (Decimal False 0 0) \<and> dec_val (Decimal False 0 0) \<le> 0 \<and>
   estimate_transaction_cost_usd (Some 21000) (Some ''0'') eth_price_2000
     = Inr (Some (Decimal False 0 (- 1)))"
proof -
  have w: "wei_to_ether ''0'' = Inr (Decimal False 0 0)"
    by (simp add: wei_to_ether_def parse_zero bind_def try_except_def dec_div_def dec_fix_def
        ctx_defs Let_def)
  have "estimate_transaction_cost_usd (Some 21000) (Some ''0'') eth_price_2000
     = Inr (Some (Decimal False 0 (- 1)))"
    by (simp add: estimate_transaction_cost_usd_def eth_price_2000_def float_price fle_def flt_def
        w bind_def try_except_def dec_mul_def Decimal_of_int_def dec_fix_def ctx_defs Let_def)
  then show ?thesis by (simp add: parse_zero dec_val_def)
qed

text \<open>
  C6 (amended): \<open>estimate_transaction_cost_usd\<close> returns nothing when \<open>gas_used\<close> is
  missing or zero, when \<open>gas_price\<close> is missing or the empty string, or when the ETH/USD
  price is not positive; otherwise, with a price above zero, it returns
  \<open>wei_to_ether(gas_price)\<close> multiplied by \<open>gas_used\<close> multiplied by the price, the
  products being those of \<open>Decimal\<close> (whenever they are defined). The witness: nothing for
  the price 0.0, and 0.840000000 for 21000 gas at 20 gwei and the price 2000.0.
\<close>

theorem C6_estimate_guard_and_product:
  "(used = None \<or> used = Some 0 \<or> gprice = None \<or> gprice = Some [] \<or>
    dec_val eth_price_usd \<le> 0
      \<longrightarrow> estimate_transaction_cost_usd used gprice eth_price_usd = Inr None) \<and>
   (used = Some g \<and> g \<noteq> 0 \<and> gprice = Some p \<and> p \<noteq> [] \<and>
    flt (Float 0) (float_of_decimal eth_price_usd) \<and>
    wei_to_ether p = Inr gas_price_ether \<and>
    dec_mul gas_price_ether (Decimal_of_int g) = Inr eth_cost \<and>
    dec_mul eth_cost eth_price_usd = Inr usd_cost
      \<longrightarrow> estimate_transaction_cost_usd used gprice eth_price_usd = Inr (Some usd_cost))"
proof (intro conjI impI)
  assume "used = None \<or> used = Some 0 \<or> gprice = None \<or> gprice = Some [] \<or>
    dec_val eth_price_usd \<le> 0"
  then have "used = None \<or> used = Some 0 \<or> gprice = None \<or> gprice = Some [] \<or>
    fle (float_of_decimal eth_price_usd) (Float 0)"
    using fle_round_double_nonpos [of "dec_val eth_price_usd"]
    by (auto simp: float_of_decimal_def)
  then show "estimate_transaction_cost_usd used gprice eth_price_usd = Inr None"
    by (auto simp: estimate_transaction_cost_usd_def try_except_def)
next
  assume a: "used = Some g \<and> g \<noteq> 0 \<and> gprice = Some p \<and> p \<noteq> [] \<and>
    flt (Float 0) (float_of_decimal eth_price_usd) \<and>
    wei_to_ether p = Inr gas_price_ether \<and>
    dec_mul gas_price_ether (Decimal_of_int g) = Inr eth_cost \<and>
    dec_mul eth_cost eth_price_usd = Inr usd_cost"
  then have "\<not> fle (float_of_decimal eth_price_usd) (Float 0)"
    by (simp add: flt_zero_not_fle)
  with a show "estimate_transaction_cost_usd used gprice eth_price_usd = Inr (Some usd_cost)"
    by (simp add: estimate_transaction_cost_usd_def try_except_def bind_def)
qed

theorem C6_estimate_guard_and_product_witness:
  "estimate_transaction_cost_usd (Some 21000) (Some ''20000000000'') (Decimal False 0 (- 1))
     = Inr None \<and>
   estimate_transaction_cost_usd (Some 21000) (Some ''20000000000'') eth_price_2000
     = Inr (Some (Decimal False 840000000 (- 9))) \<and>
   0 < dec_val (Decimal False 840000000 (- 9))"
proof -
  have z: "dec_val (Decimal False 0 (- 1)) \<le> 0" by (simp add: dec_val_def)
  have pos: "flt (Float 0) (float_of_decimal eth_price_2000)"
    by (simp add: eth_price_2000_def float_price flt_def)
  have m1: "dec_mul (Decimal False 2 (- 8)) (Decimal_of_int 21000) = Inr (Decimal False 42000 (- 8))"
    by (simp add: dec_mul_def Decimal_of_int_def dec_fix_def ndigits.simps ctx_defs Let_def)
  have m2: "dec_mul (Decimal False 42000 (- 8)) eth_price_2000 =
      Inr (Decimal False 840000000 (- 9))"
    by (simp add: dec_mul_def eth_price_2000_def dec_fix_def ndigits.simps ctx_defs Let_def)
  have v: "0 < dec_val (Decimal False 840000000 (- 9))" by (simp add: dec_val_def pow10_def)
  from C6_estimate_guard_and_product [where used = "Some 21000" and gprice = "Some ''20000000000''"
      and eth_price_usd = "Decimal False 0 (- 1)"] z
  have a: "estimate_transaction_cost_usd (Some 21000) (Some ''20000000000'')
      (Decimal False 0 (- 1)) = Inr None"
    by blast
  from C6_estimate_guard_and_product [where used = "Some 21000" and g = 21000 and gprice = "Some ''20000000000''"
      and p = "''20000000000''" and eth_price_usd = eth_price_2000
      and gas_price_ether = "Decimal False 2 (- 8)" and eth_cost = "Decimal False 42000 (- 8)"
      and usd_cost = "Decimal False 840000000 (- 9)"]
    pos wei_to_ether_gas_price m1 m2
  have b: "estimate_transaction_cost_usd (Some 21000) (Some ''20000000000'') eth_price_2000
     = Inr (Some (Decimal False 840000000 (- 9)))"
    by simp
  from a b v show ?thesis by blast
qed

section \<open>Scaling token amounts\<close>

lemma format_token_amount_zero_decimals: "format_token_amount amount 0 = Inr amount"
  by (simp add: format_token_amount_def try_except_def)

text \<open>
  A raw amount of 40 digits at 18 decimals whose quotient has 22 digits before the point:
  the division rounds the quotient to 28 digits, half to even, before \<open>quantize\<close>
  truncates, and the sixth fractional digit comes out rounded up (the exact quotient is
  1234567890123456789012.3456789).
\<close>

lemma format_token_amount_rounds_up:
  "format_token_amount (Decimal False 1234567890123456789012345678900000000000 0) 18
   = Inr (Decimal False 1234567890123456789012345679 (- 6))"
  by (simp add: format_token_amount_def dec_pow10_def dec_fix_def dec_div_def dec_quantize_def
      dec_rescale_def round_digits_def adjusted_def ndigits.simps strip_zeros.simps ctx_defs
      bind_def try_except_def Let_def)

text \<open>
  C7: \<open>format_token_amount\<close> should return the truncated quotient and never raise. For
  the raw amount \<open>10 ^ 40\<close> at 18 decimals the quotient \<open>10 ^ 22\<close> needs 29 digits at six
  fractional places, more than the 28 of the context: \<open>quantize\<close> raises
  \<open>decimal.InvalidOperation\<close>, which is none of the exceptions the handler names, and the
  exception reaches the caller.
\<close>

theorem C7_format_token_amount_raises:
  "format_token_amount (Decimal False 10000000000000000000000000000000000000000 0) 18
   = Inl InvalidOperation"
  by (simp add: format_token_amount_def dec_pow10_def dec_fix_def dec_div_def dec_quantize_def
      dec_rescale_def round_digits_def adjusted_def ndigits.simps strip_zeros.simps ctx_defs
      bind_def try_except_def caught_ValueError_TypeError_ZeroDivisionError_def
      is_ZeroDivisionError_def Let_def)

section \<open>Round numbers\<close>

lemma log10_25000_bounds: "17 / 4 < log 10 25000" "log 10 25000 < 9 / 2"
proof -
  have e4: "log 10 (25000 ^ 4) = 4 * log 10 25000"
    and e2: "log 10 (25000 ^ 2) = 2 * log 10 25000"
    and e17: "log 10 (10 ^ 17) = 17" and e9: "log 10 (10 ^ 9) = 9"
    using log_nat_power [of 25000 10 4] log_nat_power [of 25000 10 2]
      log_nat_power [of 10 10 17] log_nat_power [of 10 10 9]
    by simp_all
  have "log 10 (10 ^ 17) < log 10 (25000 ^ 4)"
    by (subst log_less_cancel_iff) simp_all
  then have "17 < 4 * log 10 25000"
    unfolding e4 e17 .
  then show "17 / 4 < log 10 25000" by simp
  have "log 10 (25000 ^ 2) < log 10 (10 ^ 9)"
    by (subst log_less_cancel_iff) simp_all
  then have "2 * log 10 25000 < 9"
    unfolding e2 e9 .
  then show "log 10 25000 < 9 / 2" by simp
qed

lemma log10_25000_not_near_integer:
  "\<not> \<bar>log 10 25000 - real_of_int (round (log 10 (25000 :: real)))\<bar> < 1 / 1000"
proof -
  have "round (log 10 (25000 :: real)) = 4"
    using log10_25000_bounds by (intro round_unique) simp_all
  then show ?thesis using log10_25000_bounds by simp
qed

lemma endswith_longer: "endswith s (c # p) \<Longrightarrow> endswith s p"
proof -
  assume a: "endswith s (c # p)"
  then have len: "Suc (length p) \<le> length s"
    and d: "drop (length s - Suc (length p)) s = c # p"
    by (simp_all add: endswith_def)
  have "length s - length p = Suc (length s - Suc (length p))"
    using len by arith
  then have "drop (length s - length p) s = drop 1 (drop (length s - Suc (length p)) s)"
    by simp
  also have "\<dots> = p" by (simp add: d)
  finally show ?thesis using len by (simp add: endswith_def)
qed

lemma dec_str_25000: "dec_str (Decimal False 25000 0) = ''25000''"
  by (simp add: dec_str_def digits_str.simps digit_char_def Let_def)

lemma dec_val_25000: "dec_val (Decimal False 25000 0) = 25000"
  by (simp add: dec_val_def pow10_def)

lemma float_of_int_25000: "float_of_int 25000 = Float 25000"
  by (simp add: float_of_int_def float_defs Let_def)

lemma is_round_number_25000: "is_round_number math_log10 (Decimal False 25000 0)"
proof -
  have "flt (fabs (fsub (float_of_decimal (Decimal False 25000 0)) (float_of_int 25000)))
          lit_0_001"
    by (simp add: float_25000 float_of_int_25000 fsub_def round_double_def fabs_def flt_def
        lit_0_001_eq)
  moreover have "(25000 :: int) \<in> set common_amounts" by (simp add: common_amounts_def)
  ultimately have "list_ex (\<lambda>common. flt (fabs (fsub (float_of_decimal (Decimal False 25000 0))
      (float_of_int common))) lit_0_001) common_amounts"
    unfolding list_ex_iff by blast
  then show ?thesis
    by (simp add: is_round_number_def dec_val_25000 Let_def)
qed

lemma not_spec_round_25000: "\<not> spec_is_round_number (Decimal False 25000 0)"
proof -
  have a: "\<not> endswith ''25000'' ''00000''" "\<not> endswith ''25000'' ''9999''"
    by (simp_all add: endswith_def)
  have b: "\<not> (\<exists>m \<in> set spec_round_magnitudes. \<bar>(25000 :: rat) - m\<bar> < 1 / 1000)"
    by (simp add: spec_round_magnitudes_def)
  show ?thesis
    using log10_25000_not_near_integer b
    by (simp add: spec_is_round_number_def dec_str_25000 dec_val_25000 a)
qed

text \<open>
  C8, as stated, fails: the amount 25000 (a \<open>Decimal('25000')\<close>, as for a token without
  decimals) is on the code's list of common amounts and is found round, but it is no member
  of a 1-2-5 progression, it has neither five trailing zeros nor four trailing nines, and
  its logarithm 4.398 is not near an integer.
\<close>

theorem C8_round_magnitudes_counterexample:
  "is_round_number (\<lambda>x. 0) (Decimal False 25000 0) \<and>
   \<not> spec_is_round_number (Decimal False 25000 0)"
  using is_round_number_25000 [of "\<lambda>x. 0"] not_spec_round_25000 by blast

text \<open>
  C8 (amended): \<open>is_round_number\<close> returns true exactly when the amount is positive and its
  decimal string ends in five or more zeros, or the amount converted to a float is within
  0.001 of one of the amounts on the fixed list \<open>common_amounts\<close> (which holds 25000 and
  lacks 20,000,000 and 200,000,000), or that float is positive and its base-10 logarithm, as
  the platform computes it, is within 0.001 of its rounding to an integer, or the decimal
  string ends in four or more nines. For an amount that is not positive it returns false.
\<close>

theorem C8_is_round_number_characterised:
  "is_round_number math_log10 amount =
     (0 < dec_val amount \<and>
      (endswith (dec_str amount) ''00000'' \<or>
       (\<exists>common \<in> set common_amounts.
          flt (fabs (fsub (float_of_decimal amount) (float_of_int common))) lit_0_001) \<or>
       (flt (Float 0) (float_of_decimal amount) \<and>
        log10_near_integer math_log10 (float_of_decimal amount)) \<or>
       endswith (dec_str amount) ''9999''))"
  using endswith_longer [of "dec_str amount" "CHR ''0''" "''00000''"]
    endswith_longer [of "dec_str amount" "CHR ''9''" "''9999''"]
  by (auto simp: is_round_number_def Let_def list_ex_iff)

theorem C8_is_round_number_characterised_witness:
  "is_round_number (\<lambda>x. 0) thousand \<and> \<not> is_round_number (\<lambda>x. 0) (Decimal True 1 0) \<and>
   25000 \<in> set common_amounts \<and> 20000000 \<notin> set common_amounts \<and>
   200000000 \<notin> set common_amounts"
proof -
  have a: "0 < dec_val thousand" by (simp add: thousand_def dec_val_def pow10_def)
  have b: "endswith (dec_str thousand) ''00000''"
    by (simp add: dec_str_thousand endswith_def)
  have c: "\<not> 0 < dec_val (Decimal True 1 0)" by (simp add: dec_val_def pow10_def)
  from C8_is_round_number_characterised [of "\<lambda>x. 0" thousand]
    C8_is_round_number_characterised [of "\<lambda>x. 0" "Decimal True 1 0"] a b c
  show ?thesis by (simp add: common_amounts_def)
qed

section \<open>Ranking and assembly\<close>

lemma analyze_loop_length:
  "analyze_loop math_log10 config eth_price_usd ws acc = Inr res \<Longrightarrow>
   int (length acc) \<le> max 0 (max_early_wallets config) \<Longrightarrow>
   int (length res) \<le> max 0 (max_early_wallets config)"
proof (induction math_log10 config eth_price_usd ws acc rule: analyze_loop.induct)
  case (1 math_log10 config eth_price_usd wallet_analyses)
  then show ?case by simp
next
  case (2 math_log10 config eth_price_usd wallet_addr wallet_txs rest wallet_analyses)
  show ?case
  proof (cases "max_early_wallets config \<le> int (length wallet_analyses)")
    case True
    with "2.prems" show ?thesis by simp
  next
    case False
    then have grow: "\<And>x. int (length (wallet_analyses @ [x])) \<le> max 0 (max_early_wallets config)"
      by simp
    from False "2.prems" "2.IH" grow show ?thesis
      by (auto simp: bind_def Let_def split: option.splits if_splits sum.splits)
  qed
qed


lemma py_slice_to_all:
  "int (length xs) \<le> max 0 n \<Longrightarrow> py_slice_to xs n = xs"
  by (auto simp: py_slice_to_def)


lemma analyzed_wallets_all_reported:
  assumes "analyze_loop math_log10 config eth_price_usd ws [] = Inr wallet_analyses"
  shows "py_slice_to (sort_key first_block wallet_analyses) (max_early_wallets config) =
         sort_key first_block wallet_analyses"
proof -
  have "int (length wallet_analyses) \<le> max 0 (max_early_wallets config)"
    using analyze_loop_length [OF assms] by simp
  then show ?thesis by (intro py_slice_to_all) simp
qed



text \<open>
  C9: for an empty transfer history the analysis returns (it raises nothing) a report with
  \<open>total_transactions = 0\<close>, \<open>unique_wallets = 0\<close> and an empty \<open>earliest_wallets\<close>.
\<close>

theorem C9_empty_history_empty_report:
  "analyze_token_interactions math_log10 token [] eth_price_usd config =
     Inr \<lparr>token_info = token, total_transactions = 0, unique_wallets = 0,
            earliest_wallets = []\<rparr>"
  by (simp add: analyze_token_interactions_def)

theorem C9_empty_history_empty_report_witness:
  "analyze_token_interactions (\<lambda>x. 0) example_token [] eth_price_2000 default_config =
     Inr \<lparr>token_info = example_token, total_transactions = 0, unique_wallets = 0,
            earliest_wallets = []\<rparr>"
  by (rule C9_empty_history_empty_report)

section \<open>Properties of the address utilities\<close>

text \<open>
  C10, as stated, fails: the validity check inside \<open>is_likely_contract\<close> is made on the
  normalised address. An input with an upper-case \<open>0X\<close> prefix is not a valid address
  (its body after an optional \<open>0x\<close> prefix has 42 characters), yet it is lower-cased first
  and then recognised as the null address.
\<close>

theorem C10_invalid_input_counterexample:
  "\<not> is_valid_ethereum_address ''0X0000000000000000000000000000000000000000'' \<and>
   is_likely_contract ''0X0000000000000000000000000000000000000000''"
  by (simp add: is_valid_ethereum_address_def is_likely_contract_def normalize_address_def
      startswith_def re_match_hex40_def lower_def lower_char_def special_addresses_def
      is_hex_char_def Let_def)

text \<open>
  C10 (amended): for every input whose normalised form (lower-cased, with \<open>0x\<close> put in
  front when it is absent) is not a valid address, and in particular for the empty string,
  \<open>is_likely_contract\<close> returns false, whatever contract pattern the input matches.
\<close>

theorem C10_invalid_normalized_not_contract:
  "address = [] \<or> \<not> is_valid_ethereum_address (normalize_address address)
   \<Longrightarrow> \<not> is_likely_contract address"
  by (auto simp: is_likely_contract_def normalize_address_def Let_def)

theorem C10_invalid_normalized_not_contract_witness:
  "\<not> is_valid_ethereum_address (normalize_address ''0x00000abc'') \<and>
   \<not> is_likely_contract ''0x00000abc'' \<and> \<not> is_likely_contract []"
proof -
  have h: "\<not> is_valid_ethereum_address (normalize_address ''0x00000abc'')"
    by (simp add: is_valid_ethereum_address_def normalize_address_def startswith_def
        re_match_hex40_def lower_def lower_char_def Let_def)
  from h C10_invalid_normalized_not_contract [of "''0x00000abc''"]
    C10_invalid_normalized_not_contract [of "[]"]
  show ?thesis by blast
qed

end
